theory Spec2Isabelle
  imports Complex_Main
begin

section \<open>Python values used by the converter\<close>

text \<open>
  The development embeds the conversion core of
  \<^verbatim>\<open>src/_archiv/LosslessTranscoder13-filename.py\<close>: the classes
  \<^verbatim>\<open>VideoMetadata\<close> and \<^verbatim>\<open>Converter\<close>.

  Python strings are modelled as \<^typ>\<open>string\<close>, with one \<^typ>\<open>char\<close> per code
  point below 256. A Python float is an IEEE-754 binary64 value, modelled by \<open>pyfloat\<close>:
  \<open>Fin x\<close> for the finite value \<open>x\<close>, the two infinities, and NaN. Every operation that
  yields a float rounds its exact result to the nearest binary64 value, ties to even, with
  overflow to infinity and gradual underflow (\<open>round64\<close> below). The sign of zero, which
  nothing in the program observes, is dropped.
\<close>

datatype pyfloat = Fin rat | PInf | NInf | NaN

text \<open>
  Exceptions raised by the interpreter itself. The text that \<^verbatim>\<open>str(e)\<close> gives for them
  belongs to the Python runtime and differs between versions, so the functions that format
  an exception take it as a parameter \<open>rt\<close>.
\<close>

datatype builtin_error =
    ValueError_float string      \<comment> \<open>\<^verbatim>\<open>float(s)\<close> on a string that is no float literal\<close>
  | ValueError_int_nan           \<comment> \<open>\<^verbatim>\<open>int(nan)\<close>\<close>
  | OverflowError_int_inf        \<comment> \<open>\<^verbatim>\<open>int(inf)\<close>\<close>
  | OverflowError_float_of_int   \<comment> \<open>an integer too large to convert to a float\<close>
  | ZeroDivisionError            \<comment> \<open>float division by zero\<close>
  | UnboundLocalError string     \<comment> \<open>a local variable read before any assignment\<close>
  | AttributeError_get           \<comment> \<open>\<^verbatim>\<open>.get\<close> on a value that is not a dict\<close>
  | TypeError_float              \<comment> \<open>\<^verbatim>\<open>float(x)\<close> on None, a list or a dict\<close>
  | TypeError_iter               \<comment> \<open>iterating a value that is not iterable\<close>
  | TypeError_subscript          \<comment> \<open>\<^verbatim>\<open>x['k']\<close> on a value that is not a dict\<close>
  | KeyError string              \<comment> \<open>\<^verbatim>\<open>d['k']\<close> on a dict without the key\<close>

datatype exn =
    Exception string             \<comment> \<open>\<^verbatim>\<open>raise Exception(msg)\<close> in the program\<close>
  | FileNotFoundError string     \<comment> \<open>raised by a library call; the text is the environment's\<close>
  | CalledProcessError string
  | JSONDecodeError string
  | OtherError string            \<comment> \<open>any other exception of a library call\<close>
  | Builtin builtin_error

fun str_exn :: "(builtin_error \<Rightarrow> string) \<Rightarrow> exn \<Rightarrow> string" where
  "str_exn rt (Exception m) = m"
| "str_exn rt (FileNotFoundError m) = m"
| "str_exn rt (CalledProcessError m) = m"
| "str_exn rt (JSONDecodeError m) = m"
| "str_exn rt (OtherError m) = m"
| "str_exn rt (Builtin b) = rt b"

subsection \<open>Strings\<close>

definition is_space :: "char \<Rightarrow> bool" where
  \<comment> \<open>\<^verbatim>\<open>str.isspace\<close> on the code points below 256\<close>
  "is_space c \<longleftrightarrow> c \<in> set [CHR 0x09, CHR 0x0A, CHR 0x0B, CHR 0x0C, CHR 0x0D,
      CHR 0x1C, CHR 0x1D, CHR 0x1E, CHR 0x1F, CHR 0x20, CHR 0x85, CHR 0xA0]"

definition is_digit :: "char \<Rightarrow> bool" where
  "is_digit c \<longleftrightarrow> c \<in> set ''0123456789''"

definition digit_val :: "char \<Rightarrow> nat" where
  "digit_val c = length (takeWhile (\<lambda>d. d \<noteq> c) ''0123456789'')"

primrec starts_with :: "string \<Rightarrow> string \<Rightarrow> bool" where
  \<comment> \<open>\<open>starts_with p s\<close>: \<^verbatim>\<open>s.startswith(p)\<close>\<close>
  "starts_with [] s = True"
| "starts_with (c # p) s = (case s of [] \<Rightarrow> False | d # t \<Rightarrow> c = d \<and> starts_with p t)"

fun py_in :: "string \<Rightarrow> string \<Rightarrow> bool" where
  \<comment> \<open>\<open>py_in sub s\<close>: \<^verbatim>\<open>sub in s\<close>\<close>
  "py_in sub [] = starts_with sub []"
| "py_in sub (c # cs) = (starts_with sub (c # cs) \<or> py_in sub cs)"

text \<open>
  \<^verbatim>\<open>s.split(sep)\<close> for a separator that is not empty (the program only splits at
  \<^verbatim>\<open>'time='\<close> and \<^verbatim>\<open>':'\<close>): the occurrences are found from the left and do not
  overlap. \<open>cur\<close> holds the current piece, reversed.
\<close>

function split_from :: "string \<Rightarrow> string \<Rightarrow> string \<Rightarrow> string list" where
  "split_from sep cur [] = [rev cur]"
| "split_from sep cur (c # cs) =
     (if starts_with sep (c # cs) then rev cur # split_from sep [] (drop (length sep - 1) cs)
      else split_from sep (c # cur) cs)"
  by pat_completeness auto
termination
  by (relation "measure (\<lambda>(sep, cur, s). length s)") auto

definition py_split :: "string \<Rightarrow> string \<Rightarrow> string list" where
  "py_split sep s = split_from sep [] s"

text \<open>\<^verbatim>\<open>s.split()\<close>: the maximal runs of characters that are not whitespace.\<close>

fun split_ws :: "string \<Rightarrow> string \<Rightarrow> string list" where
  "split_ws cur [] = (if cur = [] then [] else [rev cur])"
| "split_ws cur (c # cs) =
     (if is_space c then (if cur = [] then split_ws [] cs else rev cur # split_ws [] cs)
      else split_ws (c # cur) cs)"

definition py_split_ws :: "string \<Rightarrow> string list" where
  "py_split_ws s = split_ws [] s"

definition py_strip :: "string \<Rightarrow> string" where
  "py_strip s = rev (dropWhile is_space (rev (dropWhile is_space s)))"

text \<open>\<^verbatim>\<open>str(n)\<close> for an integer, as the f-strings of the program format it.\<close>

fun str_nat :: "nat \<Rightarrow> string" where
  "str_nat n = (if n < 10 then [''0123456789'' ! n]
                else str_nat (n div 10) @ [''0123456789'' ! (n mod 10)])"

declare str_nat.simps [simp del]

definition str_int :: "int \<Rightarrow> string" where
  "str_int i = (if i < 0 then CHR ''-'' # str_nat (nat (- i)) else str_nat (nat i))"

subsection \<open>Floats\<close>

text \<open>
  Rounding to binary64. For \<open>a > 0\<close>, \<open>ilog2 a\<close> is the exponent \<open>k\<close> with
  \<open>2 ^ k \<le> a < 2 ^ (k + 1)\<close>. A binary64 value has 53 significant bits and its last bit
  is worth at least \<open>2 ^ - 1074\<close>, so \<open>a\<close> is rounded to a multiple of \<open>2 ^ e\<close> with
  \<open>e = max (k - 52) (- 1074)\<close>; a tie goes to the even multiple; a result of \<open>2 ^ 1024\<close>
  or more is an infinity.
\<close>

fun bit_length :: "nat \<Rightarrow> nat" where
  "bit_length n = (if n = 0 then 0 else Suc (bit_length (n div 2)))"

declare bit_length.simps [simp del]

definition ilog2 :: "rat \<Rightarrow> int" where
  "ilog2 a = (if 1 \<le> a then int (bit_length (nat \<lfloor>a\<rfloor>)) - 1
              else - int (bit_length (nat (\<lceil>1 / a\<rceil> - 1))))"

definition two_pow :: "int \<Rightarrow> rat" where
  "two_pow e = (if 0 \<le> e then 2 ^ nat e else 1 / 2 ^ nat (- e))"

definition half_even :: "int \<Rightarrow> rat \<Rightarrow> int" where
  \<comment> \<open>\<open>f\<close> plus the fraction \<open>r\<close>, rounded to the nearest integer\<close>
  "half_even f r = (if r < 1 / 2 then f else if 1 / 2 < r then f + 1
                    else if even f then f else f + 1)"

definition round_half_even :: "rat \<Rightarrow> int" where
  "round_half_even y = half_even \<lfloor>y\<rfloor> (y - of_int \<lfloor>y\<rfloor>)"

definition scaled :: "rat \<Rightarrow> int \<Rightarrow> rat" where
  \<comment> \<open>the multiple of \<open>2 ^ e\<close> nearest to \<open>a\<close>\<close>
  "scaled a e = of_int (round_half_even (a / two_pow e)) * two_pow e"

definition pack :: "rat \<Rightarrow> rat \<Rightarrow> pyfloat" where
  \<comment> \<open>the rounded magnitude \<open>v\<close> with the sign of \<open>x\<close>\<close>
  "pack x v = (if 2 ^ 1024 \<le> v then (if 0 < x then PInf else NInf)
               else Fin (if 0 < x then v else - v))"

definition round64 :: "rat \<Rightarrow> pyfloat" where
  "round64 x = (if x = 0 then Fin 0
                else pack x (scaled \<bar>x\<bar> (max (ilog2 \<bar>x\<bar> - 52) (- 1074))))"

text \<open>
  \<^verbatim>\<open>float(s)\<close> on a string. CPython first checks the underscores of the whole string
  (each must stand between two digits) and removes them, then strips whitespace at both
  ends, then reads an optional sign followed by \<^verbatim>\<open>inf\<close>, \<^verbatim>\<open>infinity\<close> or
  \<^verbatim>\<open>nan\<close> in any case, or by a decimal number: digits with an optional point, at least one
  digit in all, and an optional exponent \<^verbatim>\<open>e\<close> or \<^verbatim>\<open>E\<close>, optional sign, digits. The
  value of the decimal number is rounded to binary64. \<open>None\<close> stands for the ValueError.

  The whitespace that \<^verbatim>\<open>float\<close> strips is not that of \<^verbatim>\<open>str.strip\<close>: the four
  separators \<^verbatim>\<open>\x1c\<close> to \<^verbatim>\<open>\x1f\<close> are left in place, and make the string invalid.
\<close>

definition is_float_space :: "char \<Rightarrow> bool" where
  "is_float_space c \<longleftrightarrow> c \<in> set [CHR 0x09, CHR 0x0A, CHR 0x0B, CHR 0x0C, CHR 0x0D,
      CHR 0x20, CHR 0x85, CHR 0xA0]"

definition float_strip :: "string \<Rightarrow> string" where
  "float_strip s = rev (dropWhile is_float_space (rev (dropWhile is_float_space s)))"

fun drop_underscores :: "char \<Rightarrow> string \<Rightarrow> string option" where
  "drop_underscores prev [] = (if prev = CHR ''_'' then None else Some [])"
| "drop_underscores prev (c # cs) =
     (if c = CHR ''_'' then (if is_digit prev then drop_underscores c cs else None)
      else if prev = CHR ''_'' \<and> \<not> is_digit c then None
      else map_option ((#) c) (drop_underscores c cs))"

definition nat_of_digits :: "string \<Rightarrow> nat" where
  "nat_of_digits ds = foldl (\<lambda>n c. 10 * n + digit_val c) 0 ds"

definition to_lower :: "char \<Rightarrow> char" where
  "to_lower c = (case map_of (zip ''ABCDEFGHIJKLMNOPQRSTUVWXYZ'' ''abcdefghijklmnopqrstuvwxyz'') c of
                   Some l \<Rightarrow> l | None \<Rightarrow> c)"

definition parse_exponent :: "string \<Rightarrow> int option" where
  \<comment> \<open>what follows the mantissa: nothing, or an exponent that reaches the end\<close>
  "parse_exponent s =
     (case s of
        [] \<Rightarrow> Some 0
      | c # t \<Rightarrow>
          if c = CHR ''e'' \<or> c = CHR ''E'' then
            (let neg = (t \<noteq> [] \<and> hd t = CHR ''-'');
                 ds = (if t \<noteq> [] \<and> (hd t = CHR ''-'' \<or> hd t = CHR ''+'') then tl t else t)
             in if ds \<noteq> [] \<and> list_all is_digit ds
                then Some (if neg then - int (nat_of_digits ds) else int (nat_of_digits ds))
                else None)
          else None)"

definition parse_decimal :: "string \<Rightarrow> rat option" where
  \<comment> \<open>the exact value of a decimal number\<close>
  "parse_decimal s =
     (let ip = takeWhile is_digit s;
          r1 = dropWhile is_digit s;
          fp = (if r1 \<noteq> [] \<and> hd r1 = CHR ''.'' then takeWhile is_digit (tl r1) else []);
          r2 = (if r1 \<noteq> [] \<and> hd r1 = CHR ''.'' then dropWhile is_digit (tl r1) else r1)
      in if ip = [] \<and> fp = [] then None
         else (case parse_exponent r2 of
                 None \<Rightarrow> None
               | Some e \<Rightarrow>
                   let m = of_nat (nat_of_digits (ip @ fp)) / 10 ^ length fp
                   in Some (if 0 \<le> e then m * 10 ^ nat e else m / 10 ^ nat (- e))))"

definition parse_unsigned :: "string \<Rightarrow> pyfloat option" where
  "parse_unsigned s =
     (let l = map to_lower s
      in if l = ''inf'' \<or> l = ''infinity'' then Some PInf
         else if l = ''nan'' then Some NaN
         else map_option round64 (parse_decimal s))"

fun fneg :: "pyfloat \<Rightarrow> pyfloat" where
  "fneg (Fin a) = Fin (- a)"
| "fneg PInf = NInf"
| "fneg NInf = PInf"
| "fneg NaN = NaN"

definition py_float :: "string \<Rightarrow> pyfloat option" where
  "py_float s =
     (case drop_underscores (CHR 0x00) s of
        None \<Rightarrow> None
      | Some t \<Rightarrow>
          (case float_strip t of
             [] \<Rightarrow> None
           | c # u \<Rightarrow>
               if c = CHR ''-'' then map_option fneg (parse_unsigned u)
               else if c = CHR ''+'' then parse_unsigned u
               else parse_unsigned (c # u)))"

text \<open>
  Float arithmetic: the exact result of two finite operands, rounded. Only the division
  raises, and only on a divisor 0; an overflow gives an infinity.
\<close>

fun fsgn :: "pyfloat \<Rightarrow> rat" where
  "fsgn (Fin a) = sgn a"
| "fsgn PInf = 1"
| "fsgn NInf = - 1"
| "fsgn NaN = 0"

definition inf_of_sign :: "rat \<Rightarrow> pyfloat" where
  "inf_of_sign s = (if 0 < s then PInf else if s < 0 then NInf else NaN)"

definition fmul :: "pyfloat \<Rightarrow> pyfloat \<Rightarrow> pyfloat" where
  "fmul x y =
     (case (x, y) of
        (Fin a, Fin b) \<Rightarrow> round64 (a * b)
      | _ \<Rightarrow> if x = NaN \<or> y = NaN then NaN else inf_of_sign (fsgn x * fsgn y))"

definition fadd :: "pyfloat \<Rightarrow> pyfloat \<Rightarrow> pyfloat" where
  "fadd x y =
     (case (x, y) of
        (Fin a, Fin b) \<Rightarrow> round64 (a + b)
      | (Fin a, _) \<Rightarrow> y
      | (_, Fin b) \<Rightarrow> x
      | _ \<Rightarrow> if x = y then x else NaN)"

definition fdiv :: "pyfloat \<Rightarrow> pyfloat \<Rightarrow> builtin_error + pyfloat" where
  "fdiv x y =
     (case (x, y) of
        (Fin a, Fin b) \<Rightarrow> if b = 0 then Inl ZeroDivisionError else Inr (round64 (a / b))
      | (_, Fin b) \<Rightarrow>
          if b = 0 then Inl ZeroDivisionError
          else if x = NaN then Inr NaN else Inr (inf_of_sign (fsgn x * sgn b))
      | (Fin a, _) \<Rightarrow> if y = NaN then Inr NaN else Inr (Fin 0)
      | _ \<Rightarrow> Inr NaN)"

definition float_of_int :: "int \<Rightarrow> builtin_error + pyfloat" where
  \<comment> \<open>an integer as the operand of a float operation, or \<^verbatim>\<open>float(n)\<close>\<close>
  "float_of_int n =
     (case round64 (of_int n) of
        Fin v \<Rightarrow> Inr (Fin v)
      | _ \<Rightarrow> Inl OverflowError_float_of_int)"

fun is_zero :: "pyfloat \<Rightarrow> bool" where
  \<comment> \<open>\<^verbatim>\<open>x == 0\<close>\<close>
  "is_zero (Fin a) = (a = 0)"
| "is_zero x = False"

fun is_positive :: "pyfloat \<Rightarrow> bool" where
  \<comment> \<open>\<^verbatim>\<open>x > 0\<close>\<close>
  "is_positive (Fin a) = (0 < a)"
| "is_positive PInf = True"
| "is_positive x = False"

definition trunc :: "rat \<Rightarrow> int" where
  \<comment> \<open>rounding towards zero\<close>
  "trunc a = (if 0 \<le> a then \<lfloor>a\<rfloor> else \<lceil>a\<rceil>)"

fun py_int :: "pyfloat \<Rightarrow> builtin_error + int" where
  \<comment> \<open>\<^verbatim>\<open>int(x)\<close> on a float\<close>
  "py_int (Fin a) = Inr (trunc a)"
| "py_int NaN = Inl ValueError_int_nan"
| "py_int x = Inl OverflowError_int_inf"

section \<open>The progress parser\<close>

text \<open>
  \<^verbatim>\<open>Converter.parse_time\<close>. The body of its \<^verbatim>\<open>try\<close> is \<open>parse_time_try\<close>, where
  \<open>None\<close> stands for any exception: the IndexError of \<^verbatim>\<open>[1]\<close> or \<^verbatim>\<open>[0]\<close> on a
  list that is too short, and the ValueError of \<^verbatim>\<open>float\<close> or of unpacking anything but
  three fields. The bare \<^verbatim>\<open>except\<close> turns each of them into the result 0.
\<close>

definition time_token :: "string \<Rightarrow> string option" where
  \<comment> \<open>\<^verbatim>\<open>line.split('time=')[1].split()[0]\<close>\<close>
  "time_token line =
     (case py_split ''time='' line of
        _ # after # _ \<Rightarrow> (case py_split_ws after of time_str # _ \<Rightarrow> Some time_str | [] \<Rightarrow> None)
      | _ \<Rightarrow> None)"

definition parse_time_try :: "string \<Rightarrow> pyfloat option" where
  "parse_time_try line =
     (case time_token line of
        None \<Rightarrow> None
      | Some time_str \<Rightarrow>
          (case map py_float (py_split '':'' time_str) of
             [Some hours, Some minutes, Some seconds] \<Rightarrow>
               Some (fadd (fadd (fmul hours (Fin 3600)) (fmul minutes (Fin 60))) seconds)
           | _ \<Rightarrow> None))"

definition parse_time :: "string \<Rightarrow> pyfloat" where
  "parse_time line = (case parse_time_try line of Some t \<Rightarrow> t | None \<Rightarrow> Fin 0)"

section \<open>The metadata probe\<close>

text \<open>
  What \<^verbatim>\<open>json.loads\<close> returns. A dict is an association list in insertion order with
  distinct keys.
\<close>

datatype json = JNull | JBool bool | JInt int | JFloat pyfloat | JStr string
  | JArr "json list" | JObj "(string \<times> json) list"

definition py_get :: "json \<Rightarrow> string \<Rightarrow> json \<Rightarrow> builtin_error + json" where
  \<comment> \<open>\<^verbatim>\<open>x.get(k, default)\<close>\<close>
  "py_get x k dflt =
     (case x of
        JObj d \<Rightarrow> (case map_of d k of Some v \<Rightarrow> Inr v | None \<Rightarrow> Inr dflt)
      | _ \<Rightarrow> Inl AttributeError_get)"

definition py_item :: "json \<Rightarrow> string \<Rightarrow> builtin_error + json" where
  \<comment> \<open>\<^verbatim>\<open>x[k]\<close> for a string \<open>k\<close>\<close>
  "py_item x k =
     (case x of
        JObj d \<Rightarrow> (case map_of d k of Some v \<Rightarrow> Inr v | None \<Rightarrow> Inl (KeyError k))
      | _ \<Rightarrow> Inl TypeError_subscript)"

definition py_iter :: "json \<Rightarrow> builtin_error + json list" where
  \<comment> \<open>the items a \<^verbatim>\<open>for\<close> loop visits: the elements of a list, the keys of a dict, the
      characters of a string\<close>
  "py_iter x =
     (case x of
        JArr xs \<Rightarrow> Inr xs
      | JObj d \<Rightarrow> Inr (map (\<lambda>kv. JStr (fst kv)) d)
      | JStr s \<Rightarrow> Inr (map (\<lambda>c. JStr [c]) s)
      | _ \<Rightarrow> Inl TypeError_iter)"

definition float_of_json :: "json \<Rightarrow> builtin_error + pyfloat" where
  \<comment> \<open>\<^verbatim>\<open>float(x)\<close>\<close>
  "float_of_json x =
     (case x of
        JStr s \<Rightarrow> (case py_float s of Some f \<Rightarrow> Inr f | None \<Rightarrow> Inl (ValueError_float s))
      | JInt n \<Rightarrow> float_of_int n
      | JFloat f \<Rightarrow> Inr f
      | JBool b \<Rightarrow> Inr (Fin (if b then 1 else 0))
      | _ \<Rightarrow> Inl TypeError_float)"

text \<open>
  The fields of \<^verbatim>\<open>VideoMetadata\<close> that the converter or a claim reads. The file name,
  the file size and the resolution string are left out: computing them raises nothing
  beyond what \<open>getsize\<close> below accounts for.
\<close>

record VideoMetadata =
  duration :: pyfloat
  video_codec :: json
  audio_codec :: json
  bitrate :: json

definition initial_metadata :: VideoMetadata where
  \<comment> \<open>the assignments of \<^verbatim>\<open>__init__\<close> before \<^verbatim>\<open>fetch_metadata\<close>\<close>
  "initial_metadata =
     \<lparr>duration = Fin 0, video_codec = JStr [], audio_codec = JStr [], bitrate = JStr []\<rparr>"

fun scan_streams :: "VideoMetadata \<Rightarrow> json list \<Rightarrow> builtin_error + VideoMetadata" where
  \<comment> \<open>the loop over \<^verbatim>\<open>data.get('streams', [])\<close>\<close>
  "scan_streams m [] = Inr m"
| "scan_streams m (stream # rest) =
     (case py_item stream ''codec_type'' of
        Inl e \<Rightarrow> Inl e
      | Inr t \<Rightarrow>
          if t = JStr ''video'' then
            (case py_get stream ''codec_name'' (JStr ''N/A'') of
               Inl e \<Rightarrow> Inl e
             | Inr v \<Rightarrow> scan_streams (m\<lparr>video_codec := v\<rparr>) rest)
          else if t = JStr ''audio'' then
            (case py_get stream ''codec_name'' (JStr ''N/A'') of
               Inl e \<Rightarrow> Inl e
             | Inr v \<Rightarrow> scan_streams (m\<lparr>audio_codec := v\<rparr>) rest)
          else scan_streams m rest)"

definition read_metadata :: "VideoMetadata \<Rightarrow> json \<Rightarrow> builtin_error + VideoMetadata" where
  \<comment> \<open>the body of the \<^verbatim>\<open>try\<close> of \<^verbatim>\<open>fetch_metadata\<close> after \<^verbatim>\<open>json.loads\<close>\<close>
  "read_metadata m data =
     (case py_get data ''format'' (JObj []) of
        Inl e \<Rightarrow> Inl e
      | Inr format_data \<Rightarrow>
          (case py_get format_data ''duration'' (JInt 0) of
             Inl e \<Rightarrow> Inl e
           | Inr d \<Rightarrow>
               (case float_of_json d of
                  Inl e \<Rightarrow> Inl e
                | Inr f \<Rightarrow>
                    (case py_get format_data ''bit_rate'' (JStr ''N/A'') of
                       Inl e \<Rightarrow> Inl e
                     | Inr b \<Rightarrow>
                         (case py_get data ''streams'' (JArr []) of
                            Inl e \<Rightarrow> Inl e
                          | Inr streams \<Rightarrow>
                              (case py_iter streams of
                                 Inl e \<Rightarrow> Inl e
                               | Inr items \<Rightarrow>
                                   scan_streams (m\<lparr>duration := f, bitrate := b\<rparr>) items))))))"

definition lift :: "builtin_error + 'a \<Rightarrow> exn + 'a" where
  "lift r = (case r of Inl e \<Rightarrow> Inl (Builtin e) | Inr v \<Rightarrow> Inr v)"

text \<open>
  \<^verbatim>\<open>VideoMetadata.fetch_metadata\<close>. \<open>probe\<close> is what \<^verbatim>\<open>subprocess.run\<close> followed by
  \<^verbatim>\<open>json.loads\<close> gives: an exception or the parsed document. The \<^verbatim>\<open>except\<close> clause
  names FileNotFoundError, CalledProcessError and JSONDecodeError; it logs them and the
  fields keep what they had. Any other exception leaves the method.
\<close>

definition fetch_metadata :: "VideoMetadata \<Rightarrow> exn + json \<Rightarrow> exn + VideoMetadata" where
  "fetch_metadata m probe =
     (case probe of
        Inl (FileNotFoundError _) \<Rightarrow> Inr m
      | Inl (CalledProcessError _) \<Rightarrow> Inr m
      | Inl (JSONDecodeError _) \<Rightarrow> Inr m
      | Inl e \<Rightarrow> Inl e
      | Inr data \<Rightarrow> lift (read_metadata m data))"

section \<open>The converter\<close>

text \<open>An entry of \<^verbatim>\<open>conversion_queue\<close>, as \<^verbatim>\<open>add_file\<close> appends it.\<close>

record job =
  input_path :: string
  output_path :: string
  audio_settings :: "string list"
  resize_settings :: "string list option"

text \<open>
  The attributes of a \<^verbatim>\<open>Converter\<close>. \<^verbatim>\<open>target_size_mb\<close> is an integer: the window passes
  the value of a slider.
\<close>

record Converter =
  conversion_queue :: "job list"
  is_stopped :: bool
  target_size_mb :: "int option"
  size_reduction_method_selected :: string

definition stop :: "Converter \<Rightarrow> Converter" where
  "stop c = c\<lparr>is_stopped := True\<rparr>"

text \<open>
  What the converter emits and does to the outside, in order: the four Qt signals, each
  blocking \<^verbatim>\<open>subprocess.run\<close> with its argument list, the \<^verbatim>\<open>subprocess.Popen\<close> of the
  encoder, and \<^verbatim>\<open>process.terminate()\<close>.
\<close>

datatype event =
    Progress string int
  | Finished string
  | Error string string
  | AllFinished
  | Run "string list"
  | Popen "string list"
  | Terminate

text \<open>
  One turn of the \<^verbatim>\<open>while True\<close> loop of \<^verbatim>\<open>convert\<close>, seen from outside: whether
  \<^verbatim>\<open>stop()\<close> has been called on the other thread since the flag was last read, the line
  that \<^verbatim>\<open>readline\<close> returns (empty at the end of the stream) and what \<^verbatim>\<open>poll\<close> returns.
\<close>

record iteration =
  stop_called :: bool
  stderr_line :: string
  poll :: "int option"

text \<open>
  Everything outside the program that one call of \<^verbatim>\<open>convert\<close> meets. A blocking call
  either raises or returns; the encoder is a script of loop turns, and a script that ends
  before the loop does stands for an encoder that never exits.
\<close>

record job_env =
  stop_before :: bool                 \<comment> \<open>\<^verbatim>\<open>stop()\<close> called before \<^verbatim>\<open>run\<close> reads the flag for this job\<close>
  ffmpeg_version :: "exn option"      \<comment> \<open>\<^verbatim>\<open>ffmpeg -version\<close>: the exception raised, if any\<close>
  duration_probe :: "exn + string"    \<comment> \<open>\<^verbatim>\<open>ffprobe\<close> for the duration: exception or stdout\<close>
  pass1 :: "exn option"               \<comment> \<open>the first pass of two-pass encoding\<close>
  getsize :: "exn option"             \<comment> \<open>\<^verbatim>\<open>os.path.getsize\<close> in \<^verbatim>\<open>VideoMetadata.__init__\<close>\<close>
  metadata_probe :: "exn + json"      \<comment> \<open>\<^verbatim>\<open>ffprobe\<close> for the metadata and \<^verbatim>\<open>json.loads\<close>\<close>
  popen :: "exn option"               \<comment> \<open>\<^verbatim>\<open>subprocess.Popen\<close>\<close>
  iterations :: "iteration list"
  stop_at_exit :: bool                \<comment> \<open>\<^verbatim>\<open>stop()\<close> called after the loop, before the exit code is checked\<close>
  stderr_rest :: string               \<comment> \<open>\<^verbatim>\<open>process.stderr.read()\<close>\<close>

definition observe :: "bool \<Rightarrow> Converter \<Rightarrow> Converter" where
  \<comment> \<open>the flag as the worker finds it: set if \<^verbatim>\<open>stop()\<close> was called in between\<close>
  "observe called c = (if called then stop c else c)"

definition version_cmd :: "string list" where
  "version_cmd = [''ffmpeg'', ''-version'']"

definition check_ffmpeg :: "job_env \<Rightarrow> exn + unit" where
  "check_ffmpeg env =
     (case ffmpeg_version env of
        None \<Rightarrow> Inr ()
      | Some (FileNotFoundError _) \<Rightarrow>
          Inl (Exception ''ffmpeg is not installed or not found in system PATH'')
      | Some (CalledProcessError _) \<Rightarrow> Inl (Exception ''Error checking ffmpeg version'')
      | Some e \<Rightarrow> Inl e)"

definition duration_cmd :: "string \<Rightarrow> string list" where
  "duration_cmd input = [''ffprobe'', ''-v'', ''error'', ''-show_entries'', ''format=duration'',
     ''-of'', ''default=noprint_wrappers=1:nokey=1'', input]"

definition get_video_duration :: "job_env \<Rightarrow> exn + pyfloat" where
  "get_video_duration env =
     (case duration_probe env of
        Inl (FileNotFoundError _) \<Rightarrow> Inr (Fin 0)
      | Inl (CalledProcessError _) \<Rightarrow> Inr (Fin 0)
      | Inl e \<Rightarrow> Inl e
      | Inr out \<Rightarrow>
          (case py_float (py_strip out) of
             Some f \<Rightarrow> Inr f
           | None \<Rightarrow> Inl (Builtin (ValueError_float (py_strip out)))))"

definition bitrate_kbps :: "int \<Rightarrow> pyfloat \<Rightarrow> builtin_error + int" where
  \<comment> \<open>the three lines that compute \<^verbatim>\<open>bitrate_kbps\<close>, the same at each of their three places:
      integer products, a float product, the division of an integer by a float,
      \<^verbatim>\<open>int\<close>, and the clamp\<close>
  "bitrate_kbps mb dur =
     (case float_of_int (mb * 1024 * 1024 * 8) of
        Inl e \<Rightarrow> Inl e
      | Inr bits \<Rightarrow>
          (case fdiv bits (fmul dur (Fin 1000)) of
             Inl e \<Rightarrow> Inl e
           | Inr q \<Rightarrow>
               (case py_int q of
                  Inl e \<Rightarrow> Inl e
                | Inr b \<Rightarrow> Inr (max 100 (min b 8000)))))"

definition kbps :: "int \<Rightarrow> string" where
  \<comment> \<open>\<^verbatim>\<open>f'{bitrate_kbps}k'\<close>\<close>
  "kbps b = str_int b @ ''k''"

definition cmd_pass1 :: "string \<Rightarrow> string list" where
  "cmd_pass1 input = [''ffmpeg'', ''-y'', ''-i'', input,
     ''-c:v'', ''libx264'', ''-pass'', ''1'', ''-an'', ''-f'', ''null'', ''/dev/null'']"

definition single_pass :: string where
  "single_pass = ''Single-Pass Encoding''"

definition two_pass :: string where
  "two_pass = ''Two-Pass Encoding''"

definition truthy :: "string list option \<Rightarrow> bool" where
  \<comment> \<open>\<^verbatim>\<open>if resize_settings:\<close> on None or a list\<close>
  "truthy r = (case r of None \<Rightarrow> False | Some xs \<Rightarrow> xs \<noteq> [])"

text \<open>
  The video part of the command: what the branches on \<^verbatim>\<open>resize_settings\<close>,
  \<^verbatim>\<open>target_size_mb\<close> and the encoding method append to \<^verbatim>\<open>cmd\<close>, with the first pass
  they run. In the resizing two-pass branch \<^verbatim>\<open>bitrate_kbps\<close> is assigned only when a
  target size is given, and read in either case.
\<close>

definition video_settings ::
  "Converter \<Rightarrow> job \<Rightarrow> job_env \<Rightarrow> int option \<Rightarrow> pyfloat \<Rightarrow> event list \<times> (exn + string list)" where
  "video_settings c j env tgt dur =
     (case resize_settings j of
        Some (resize_filter # _) \<Rightarrow>
          (let scaled = [''-vf'', resize_filter, ''-c:v'', ''libx264'']
           in if size_reduction_method_selected c = single_pass then
                (case tgt of
                   None \<Rightarrow> ([], Inr scaled)
                 | Some mb \<Rightarrow>
                     (case bitrate_kbps mb dur of
                        Inl e \<Rightarrow> ([], Inl (Builtin e))
                      | Inr b \<Rightarrow> ([], Inr (scaled @ [''-b:v'', kbps b, ''-crf'', ''23'']))))
              else if size_reduction_method_selected c = two_pass then
                (case pass1 env of
                   Some e \<Rightarrow> ([Run (cmd_pass1 (input_path j))], Inl e)
                 | None \<Rightarrow>
                     (case tgt of
                        None \<Rightarrow>
                          ([Run (cmd_pass1 (input_path j))],
                           Inl (Builtin (UnboundLocalError ''bitrate_kbps'')))
                      | Some mb \<Rightarrow>
                          (case bitrate_kbps mb dur of
                             Inl e \<Rightarrow> ([Run (cmd_pass1 (input_path j))], Inl (Builtin e))
                           | Inr b \<Rightarrow>
                               ([Run (cmd_pass1 (input_path j))],
                                Inr (scaled @ [''-c:v'', ''libx264'', ''-pass'', ''2'',
                                               ''-b:v'', kbps b, ''-maxrate'', kbps b])))))
              else ([], Inr scaled))
      | _ \<Rightarrow>
          (case tgt of
             Some mb \<Rightarrow>
               (case bitrate_kbps mb dur of
                  Inl e \<Rightarrow> ([], Inl (Builtin e))
                | Inr b \<Rightarrow>
                    if size_reduction_method_selected c = single_pass then
                      ([], Inr [''-c:v'', ''libx264'', ''-b:v'', kbps b, ''-crf'', ''23''])
                    else if size_reduction_method_selected c = two_pass then
                      (case pass1 env of
                         Some e \<Rightarrow> ([Run (cmd_pass1 (input_path j))], Inl e)
                       | None \<Rightarrow>
                           ([Run (cmd_pass1 (input_path j))],
                            Inr [''-c:v'', ''libx264'', ''-pass'', ''2'',
                                 ''-b:v'', kbps b, ''-maxrate'', kbps b]))
                    else ([], Inr []))
           | None \<Rightarrow> ([], Inr [''-c:v'', ''copy''])))"

definition metadata_cmd :: "string \<Rightarrow> string list" where
  "metadata_cmd input = [''ffprobe'', ''-v'', ''quiet'', ''-print_format'', ''json'',
     ''-show_format'', ''-show_streams'', input]"

definition new_VideoMetadata :: "string \<Rightarrow> job_env \<Rightarrow> event list \<times> (exn + VideoMetadata)" where
  \<comment> \<open>\<^verbatim>\<open>VideoMetadata(input_path)\<close>\<close>
  "new_VideoMetadata filepath env =
     (case getsize env of
        Some e \<Rightarrow> ([], Inl e)
      | None \<Rightarrow> ([Run (metadata_cmd filepath)],
                 fetch_metadata initial_metadata (metadata_probe env)))"

definition copy_audio :: "string list" where
  "copy_audio = [''-c:a'', ''copy'']"

definition aac_audio :: "string list" where
  "aac_audio = [''-c:a'', ''aac'', ''-b:a'', ''192k'']"

definition audio_args :: "job \<Rightarrow> job_env \<Rightarrow> event list \<times> (exn + string list)" where
  \<comment> \<open>the block under \<^verbatim>\<open># Audio settings\<close>\<close>
  "audio_args j env =
     (if audio_settings j = copy_audio then
        (case new_VideoMetadata (input_path j) env of
           (evs, Inl e) \<Rightarrow> (evs, Inl e)
         | (evs, Inr metadata) \<Rightarrow>
             if audio_codec metadata = JStr ''N/A'' \<or> truthy (resize_settings j)
             then (evs, Inr aac_audio)
             else (evs, Inr (audio_settings j)))
      else ([], Inr (audio_settings j)))"

text \<open>
  \<^verbatim>\<open>convert\<close> up to the complete argument list: the version check, the duration probe
  with its test for 0, the video part, the audio part, then the output path. The result
  is the duration and \<^verbatim>\<open>cmd\<close>.
\<close>

definition build_cmd ::
  "Converter \<Rightarrow> job \<Rightarrow> job_env \<Rightarrow> int option \<Rightarrow> event list \<times> (exn + pyfloat \<times> string list)" where
  "build_cmd c j env tgt =
     (case check_ffmpeg env of
        Inl e \<Rightarrow> ([Run version_cmd], Inl e)
      | Inr _ \<Rightarrow>
          (let probed = [Run version_cmd, Run (duration_cmd (input_path j))]
           in case get_video_duration env of
                Inl e \<Rightarrow> (probed, Inl e)
              | Inr dur \<Rightarrow>
                  if is_zero dur
                  then (probed, Inl (Exception ''Could not determine video duration''))
                  else
                    (case video_settings c j env tgt dur of
                       (evs1, Inl e) \<Rightarrow> (probed @ evs1, Inl e)
                     | (evs1, Inr video) \<Rightarrow>
                         (case audio_args j env of
                            (evs2, Inl e) \<Rightarrow> (probed @ evs1 @ evs2, Inl e)
                          | (evs2, Inr audio) \<Rightarrow>
                              (probed @ evs1 @ evs2,
                               Inr (dur, [''ffmpeg'', ''-y'', ''-i'', input_path j]
                                         @ video @ audio @ [output_path j]))))))"

definition progress_percent :: "pyfloat \<Rightarrow> pyfloat \<Rightarrow> builtin_error + int" where
  \<comment> \<open>\<^verbatim>\<open>min(int((current_time / duration) * 100), 100)\<close>\<close>
  "progress_percent current_time dur =
     (case fdiv current_time dur of
        Inl e \<Rightarrow> Inl e
      | Inr q \<Rightarrow>
          (case py_int (fmul q (Fin 100)) of
             Inl e \<Rightarrow> Inl e
           | Inr n \<Rightarrow> Inr (min n 100)))"

definition on_stderr_line :: "string \<Rightarrow> pyfloat \<Rightarrow> string \<Rightarrow> builtin_error + event list" where
  \<comment> \<open>the block under \<^verbatim>\<open>if stderr_line:\<close>\<close>
  "on_stderr_line input dur line =
     (if line \<noteq> [] \<and> py_in ''time='' line \<and> is_positive (parse_time line) then
        (case progress_percent (parse_time line) dur of
           Inl e \<Rightarrow> Inl e
         | Inr progress \<Rightarrow> Inr [Progress input progress])
      else Inr [])"

text \<open>
  The \<^verbatim>\<open>while True\<close> loop. Each turn reads the flag first and terminates the encoder if it
  is set; otherwise it handles one line and asks for the exit code. The result is the
  \<^verbatim>\<open>returncode\<close> of the process object: still None after \<^verbatim>\<open>terminate()\<close>. \<open>None\<close> for
  the whole loop means that it does not end.
\<close>

fun monitor ::
  "string \<Rightarrow> pyfloat \<Rightarrow> Converter \<Rightarrow> iteration list
     \<Rightarrow> (event list \<times> Converter \<times> (exn + int option)) option" where
  "monitor input dur c [] = None"
| "monitor input dur c (it # its) =
     (let c1 = observe (stop_called it) c
      in if is_stopped c1 then Some ([Terminate], c1, Inr None)
         else
           (case on_stderr_line input dur (stderr_line it) of
              Inl e \<Rightarrow> Some ([], c1, Inl (Builtin e))
            | Inr evs \<Rightarrow>
                (case poll it of
                   Some rc \<Rightarrow> Some (evs, c1, Inr (Some rc))
                 | None \<Rightarrow>
                     (case monitor input dur c1 its of
                        None \<Rightarrow> None
                      | Some (evs', c2, r) \<Rightarrow> Some (evs @ evs', c2, r)))))"

definition str_returncode :: "int option \<Rightarrow> string" where
  "str_returncode rc = (case rc of None \<Rightarrow> ''None'' | Some n \<Rightarrow> str_int n)"

definition exit_check :: "job_env \<Rightarrow> Converter \<Rightarrow> int option \<Rightarrow> Converter \<times> (exn + unit)" where
  \<comment> \<open>\<^verbatim>\<open>if process.returncode != 0 and not self.is_stopped: raise ...\<close>\<close>
  "exit_check env c rc =
     (let c1 = observe (stop_at_exit env) c
      in if rc \<noteq> Some 0 \<and> \<not> is_stopped c1
         then (c1, Inl (Exception (''FFmpeg error (code '' @ str_returncode rc @ ''): ''
                                   @ stderr_rest env)))
         else (c1, Inr ()))"

definition convert_try ::
  "Converter \<Rightarrow> job \<Rightarrow> job_env \<Rightarrow> int option \<Rightarrow> (event list \<times> Converter \<times> (exn + unit)) option" where
  \<comment> \<open>the body of the outer \<^verbatim>\<open>try\<close> of \<^verbatim>\<open>convert\<close>\<close>
  "convert_try c j env tgt =
     (case build_cmd c j env tgt of
        (evs, Inl e) \<Rightarrow> Some (evs, c, Inl e)
      | (evs, Inr (dur, cmd)) \<Rightarrow>
          (case popen env of
             Some e \<Rightarrow> Some (evs @ [Popen cmd], c, Inl e)
           | None \<Rightarrow>
               (case monitor (input_path j) dur c (iterations env) of
                  None \<Rightarrow> None
                | Some (evs', c1, Inl e) \<Rightarrow> Some (evs @ [Popen cmd] @ evs', c1, Inl e)
                | Some (evs', c1, Inr rc) \<Rightarrow>
                    (case exit_check env c1 rc of
                       (c2, r) \<Rightarrow> Some (evs @ [Popen cmd] @ evs', c2, r)))))"

definition conversion_failed :: "(builtin_error \<Rightarrow> string) \<Rightarrow> string \<Rightarrow> exn \<Rightarrow> exn" where
  \<comment> \<open>\<^verbatim>\<open>Exception(f"Conversion failed for {input_path}: {str(e)}")\<close>\<close>
  "conversion_failed rt input e =
     Exception (''Conversion failed for '' @ input @ '': '' @ str_exn rt e)"

definition convert ::
  "(builtin_error \<Rightarrow> string) \<Rightarrow> Converter \<Rightarrow> job \<Rightarrow> job_env \<Rightarrow> int option
     \<Rightarrow> (event list \<times> Converter \<times> (exn + unit)) option" where
  "convert rt c j env tgt =
     (case convert_try c j env tgt of
        None \<Rightarrow> None
      | Some (evs, c1, Inl e) \<Rightarrow> Some (evs, c1, Inl (conversion_failed rt (input_path j) e))
      | Some (evs, c1, Inr u) \<Rightarrow> Some (evs, c1, Inr u))"

text \<open>
  \<^verbatim>\<open>Converter.run\<close>. \<open>envs i\<close> is the environment that the job at position \<open>i\<close> of the
  queue meets. The loop reads the flag before each job and leaves when it is set; every
  exception of \<^verbatim>\<open>convert\<close> becomes an error signal. After the loop the flag is read once
  more, and reset.
\<close>

definition outcome :: "(builtin_error \<Rightarrow> string) \<Rightarrow> job \<Rightarrow> exn + unit \<Rightarrow> event" where
  "outcome rt j r =
     (case r of
        Inr _ \<Rightarrow> Finished (input_path j)
      | Inl e \<Rightarrow> Error (input_path j) (str_exn rt e))"

fun run_loop ::
  "(builtin_error \<Rightarrow> string) \<Rightarrow> (nat \<Rightarrow> job_env) \<Rightarrow> Converter \<Rightarrow> nat \<Rightarrow> job list
     \<Rightarrow> (event list \<times> Converter) option" where
  "run_loop rt envs c i [] = Some ([], c)"
| "run_loop rt envs c i (j # js) =
     (let c1 = observe (stop_before (envs i)) c
      in if is_stopped c1 then Some ([], c1)
         else
           (case convert rt c1 j (envs i) (target_size_mb c1) of
              None \<Rightarrow> None
            | Some (evs, c2, r) \<Rightarrow>
                (case run_loop rt envs c2 (Suc i) js of
                   None \<Rightarrow> None
                 | Some (evs', c3) \<Rightarrow> Some (evs @ [outcome rt j r] @ evs', c3))))"

definition run ::
  "(builtin_error \<Rightarrow> string) \<Rightarrow> (nat \<Rightarrow> job_env) \<Rightarrow> bool \<Rightarrow> Converter
     \<Rightarrow> (event list \<times> Converter) option" where
  \<comment> \<open>\<open>stop_at_end\<close>: \<^verbatim>\<open>stop()\<close> called after the last job, before the final read of the flag\<close>
  "run rt envs stop_at_end c =
     (case run_loop rt envs c 0 (conversion_queue c) of
        None \<Rightarrow> None
      | Some (evs, c1) \<Rightarrow>
          (let c2 = observe stop_at_end c1
           in Some (evs @ (if \<not> is_stopped c2 then [AllFinished] else []),
                    c2\<lparr>is_stopped := False\<rparr>)))"

section \<open>The specification's formulas\<close>

text \<open>
  The bitrate as the specification words it:
  \<^verbatim>\<open>clamp(target_size_bytes * 8 / (duration_seconds * 1000), 100, 8000)\<close>, the quotient
  truncated to an integer. The formula is read over the rationals: it has no rounding.
\<close>

definition spec_bitrate :: "int \<Rightarrow> rat \<Rightarrow> int" where
  "spec_bitrate target_size_bytes duration_seconds =
     max 100 (min (trunc (of_int (target_size_bytes * 8) / (duration_seconds * 1000))) 8000)"

text \<open>
  A token of the form \<^verbatim>\<open>HH:MM:SS(.ms)\<close>, as the specification writes it: three fields
  of digits separated by colons, the last with an optional fraction.
\<close>

definition all_digits :: "string \<Rightarrow> bool" where
  "all_digits s \<longleftrightarrow> s \<noteq> [] \<and> list_all is_digit s"

definition spec_time_token :: "string \<Rightarrow> bool" where
  "spec_time_token tok =
     (case py_split '':'' tok of
        [h, m, s] \<Rightarrow>
          all_digits h \<and> all_digits m \<and>
          (case py_split ''.'' s of
             [i] \<Rightarrow> all_digits i
           | [i, f] \<Rightarrow> all_digits i \<and> all_digits f
           | _ \<Rightarrow> False)
      | _ \<Rightarrow> False)"

text \<open>
  The percentage as the specification words it,
  \<^verbatim>\<open>min(100, floor(elapsed_seconds / duration_seconds * 100))\<close>, over the rationals.
\<close>

definition spec_percent :: "rat \<Rightarrow> rat \<Rightarrow> int" where
  "spec_percent elapsed_seconds duration_seconds =
     min 100 \<lfloor>elapsed_seconds / duration_seconds * 100\<rfloor>"

text \<open>
  The token that follows \<^verbatim>\<open>time=\<close>, described on the line itself and without the
  splitting of the code: \<open>after_marker m s\<close> is the text behind the first occurrence of
  \<open>m\<close> in \<open>s\<close>, if there is one; \<open>before_marker m s\<close> is the text in front of the first
  occurrence, or all of \<open>s\<close>; \<open>first_word s\<close> is the first maximal run of characters of
  \<open>s\<close> that are not whitespace, empty if there is none.
\<close>

fun after_marker :: "string \<Rightarrow> string \<Rightarrow> string option" where
  "after_marker m [] = None"
| "after_marker m (c # cs) =
     (if starts_with m (c # cs) then Some (drop (length m) (c # cs)) else after_marker m cs)"

fun before_marker :: "string \<Rightarrow> string \<Rightarrow> string" where
  "before_marker m [] = []"
| "before_marker m (c # cs) = (if starts_with m (c # cs) then [] else c # before_marker m cs)"

definition first_word :: "string \<Rightarrow> string" where
  "first_word s = takeWhile (\<lambda>c. \<not> is_space c) (dropWhile is_space s)"

text \<open>
  \<open>adjacent a b xs\<close>: the argument \<open>a\<close> stands in \<open>xs\<close> directly before \<open>b\<close>, as
  \<^verbatim>\<open>-c:a\<close> before \<^verbatim>\<open>copy\<close> in an argument list that asks for a stream copy of the audio.
\<close>

fun adjacent :: "'a \<Rightarrow> 'a \<Rightarrow> 'a list \<Rightarrow> bool" where
  "adjacent a b (x # y # zs) = (x = a \<and> y = b \<or> adjacent a b (y # zs))"
| "adjacent a b zs = False"

definition is_run :: "event \<Rightarrow> bool" where
  "is_run e = (case e of Run _ \<Rightarrow> True | _ \<Rightarrow> False)"

text \<open>
  The duration probe fails: \<^verbatim>\<open>get_video_duration\<close> raises, or returns the 0 that stands for
  a duration it could not get.
\<close>

definition probe_fails :: "job_env \<Rightarrow> bool" where
  "probe_fails env = (case get_video_duration env of Inl e \<Rightarrow> True | Inr d \<Rightarrow> is_zero d)"

section \<open>Example inputs\<close>

text \<open>
  Concrete files, jobs and environments on which the theorems below are instantiated. A
  well-behaved file of 90 seconds with a video and an audio stream, whose encoder prints
  one progress line at 45 seconds and exits with code 0:
\<close>

definition both_streams :: json where
  "both_streams =
     JObj [(''format'', JObj [(''duration'', JStr ''90.000000''), (''bit_rate'', JStr ''800000'')]),
           (''streams'', JArr [JObj [(''codec_type'', JStr ''video''), (''codec_name'', JStr ''h264'')],
                               JObj [(''codec_type'', JStr ''audio''), (''codec_name'', JStr ''aac'')]])]"

definition ok_env :: job_env where
  "ok_env =
     \<lparr>stop_before = False, ffmpeg_version = None,
      duration_probe = Inr (''90.000000'' @ [CHR 0x0A]),
      pass1 = None, getsize = None, metadata_probe = Inr both_streams, popen = None,
      iterations =
        [\<lparr>stop_called = False, stderr_line = ''frame=1 time=00:00:45.00 bitrate=1k'',
          poll = None\<rparr>,
         \<lparr>stop_called = False, stderr_line = [], poll = Some 0\<rparr>],
      stop_at_exit = False, stderr_rest = []\<rparr>"

text \<open>The same file without an audio stream, as \<^verbatim>\<open>ffprobe\<close> reports it:\<close>

definition video_only :: json where
  "video_only =
     JObj [(''format'', JObj [(''duration'', JStr ''90.000000'')]),
           (''streams'', JArr [JObj [(''codec_type'', JStr ''video''), (''codec_name'', JStr ''h264'')]])]"

definition silent_env :: job_env where
  "silent_env = ok_env\<lparr>metadata_probe := Inr video_only\<rparr>"

text \<open>A probe that exits with an error, and one that prints a duration of 0:\<close>

definition no_duration :: job_env where
  "no_duration = ok_env\<lparr>duration_probe := Inl (CalledProcessError ''ffprobe failed'')\<rparr>"

definition zero_duration :: job_env where
  "zero_duration = ok_env\<lparr>duration_probe := Inr ''0.000000''\<rparr>"

text \<open>
  A file of 100 seconds whose encoder prints one progress line at 29 seconds, and a file of
  285.212672 seconds:
\<close>

definition hundred_env :: job_env where
  "hundred_env =
     ok_env\<lparr>duration_probe := Inr (''100.000000'' @ [CHR 0x0A]),
            iterations :=
              [\<lparr>stop_called = False, stderr_line = ''frame=1 time=00:00:29.00 bitrate=1k'',
                poll = None\<rparr>,
               \<lparr>stop_called = False, stderr_line = [], poll = Some 0\<rparr>]\<rparr>"

definition long_env :: job_env where
  "long_env = ok_env\<lparr>duration_probe := Inr (''285.212672'' @ [CHR 0x0A])\<rparr>"

text \<open>Jobs with the audio policy Copy, and converters without a target size:\<close>

definition copy_job :: "string \<Rightarrow> string list option \<Rightarrow> job" where
  "copy_job name resize =
     \<lparr>input_path = name @ ''.mov'', output_path = name @ ''.mp4'',
      audio_settings = copy_audio, resize_settings = resize\<rparr>"

definition resize_job :: job where
  "resize_job = copy_job ''a'' (Some [''scale=640:360''])"

definition resize_cmd :: "string list" where
  "resize_cmd = [''ffmpeg'', ''-y'', ''-i'', ''a.mov'', ''-vf'', ''scale=640:360'',
     ''-c:v'', ''libx264'', ''-c:a'', ''aac'', ''-b:a'', ''192k'', ''a.mp4'']"

definition plain :: Converter where
  "plain = \<lparr>conversion_queue = [], is_stopped = False, target_size_mb = None,
     size_reduction_method_selected = single_pass\<rparr>"

definition two_pass_converter :: Converter where
  "two_pass_converter = plain\<lparr>size_reduction_method_selected := two_pass\<rparr>"

definition queue3 :: Converter where
  "queue3 = plain\<lparr>conversion_queue :=
     [copy_job ''a'' None, copy_job ''b'' None, copy_job ''c'' None]\<rparr>"

text \<open>What \<^verbatim>\<open>convert\<close> does for \<open>copy_job n None\<close> in \<open>ok_env\<close>:\<close>

definition trace_ok :: "string \<Rightarrow> event list" where
  "trace_ok n =
     [Run version_cmd, Run (duration_cmd (n @ ''.mov'')), Run (metadata_cmd (n @ ''.mov'')),
      Popen [''ffmpeg'', ''-y'', ''-i'', n @ ''.mov'', ''-c:v'', ''copy'', ''-c:a'', ''copy'',
             n @ ''.mp4''],
      Progress (n @ ''.mov'') 50]"

text \<open>
  The command for \<open>copy_job ''a'' None\<close> with single-pass encoding, a target size and the
  bitrate argument \<open>rate\<close>:
\<close>

definition target_cmd :: "string \<Rightarrow> string list" where
  "target_cmd rate = [''ffmpeg'', ''-y'', ''-i'', ''a.mov'', ''-c:v'', ''libx264'',
     ''-b:v'', rate, ''-crf'', ''23'', ''-c:a'', ''copy'', ''a.mp4'']"

text \<open>
  A batch whose second probe fails, and a batch in which \<^verbatim>\<open>stop()\<close> is called after the
  first job and before the flag is read for the second:
\<close>

definition second_probe_fails :: "nat \<Rightarrow> job_env" where
  "second_probe_fails i = (if i = 1 then no_duration else ok_env)"


section \<open>Evaluation\<close>

text \<open>The unfoldings that evaluate the string and float functions on a literal.\<close>

lemma floor_rat_numeral: "\<lfloor>(numeral a / numeral b :: rat)\<rfloor> = numeral a div numeral b"
  using floor_divide_of_int_eq [of "numeral a" "numeral b", where ?'a = rat] by simp

lemma ceiling_rat_numeral:
  "\<lceil>(numeral a / numeral b :: rat)\<rceil> = - (- numeral a div numeral b)"
  using ceiling_divide_eq_div [of "numeral a" "numeral b", where ?'a = rat] by simp

lemmas f_eval = round64_def pack_def scaled_def ilog2_def two_pow_def round_half_even_def
  half_even_def bit_length.simps floor_rat_numeral ceiling_rat_numeral

lemmas py_eval = py_split_def py_split_ws_def py_strip_def py_float_def is_space_def
  is_float_space_def float_strip_def
  is_digit_def digit_val_def nat_of_digits_def to_lower_def parse_exponent_def
  parse_decimal_def parse_unsigned_def time_token_def parse_time_try_def parse_time_def
  fmul_def fadd_def fdiv_def float_of_int_def inf_of_sign_def trunc_def f_eval

lemma parse_time_45: "parse_time ''frame=1 time=00:00:45.00 bitrate=1k'' = Fin 45"
  by (simp add: py_eval)

lemma progress_percent_45: "progress_percent (Fin 45) (Fin 90) = Inr 50"
  by (simp add: progress_percent_def py_eval)

section \<open>Properties of the floats\<close>

text \<open>Rounding keeps the sign: a value that is not negative rounds to one, or to infinity.\<close>

lemma two_pow_pos: "0 < two_pow e"
  by (simp add: two_pow_def)

lemma round_half_even_nonneg: "0 \<le> y \<Longrightarrow> 0 \<le> round_half_even y"
  by (simp add: round_half_even_def half_even_def)

lemma scaled_nonneg: "0 \<le> a \<Longrightarrow> 0 \<le> scaled a e"
  using two_pow_pos [of e] round_half_even_nonneg [of "a / two_pow e"]
  by (simp add: scaled_def)

lemma round64_nonneg: "0 \<le> x \<Longrightarrow> round64 x = PInf \<or> (\<exists>v. round64 x = Fin v \<and> 0 \<le> v)"
  using scaled_nonneg [of "\<bar>x\<bar>" "max (ilog2 \<bar>x\<bar> - 52) (- 1074)"]
  by (simp add: round64_def pack_def)

lemma trunc_nonneg: "0 \<le> a \<Longrightarrow> trunc a = \<lfloor>a\<rfloor>"
  by (simp add: trunc_def)

text \<open>
  \<^verbatim>\<open>float\<close> on strings at the edges: a separator that \<^verbatim>\<open>str.strip\<close> removes and
  \<^verbatim>\<open>float\<close> rejects, a number below the smallest binary64 value, which is 0, and the
  decimals that two of the examples below use, which no binary64 value equals.
\<close>

lemma py_float_separator: "py_float (''1'' @ [CHR 0x1C]) = None"
  by (simp add: py_eval)

lemma py_float_underflow: "py_float ''1e-400'' = Some (Fin 0)"
  by (simp add: py_eval)

lemma py_float_285:
  "py_float ''285.212672'' = Some (Fin (2508757194024499 / 2 ^ 43))"
  by (simp add: py_eval)

lemma py_float_6_30: "py_float ''06.30'' = Some (Fin (7093169413108531 / 2 ^ 50))"
  by (simp add: py_eval)

section \<open>Properties of the progress parser\<close>

lemma split_from_absent: "\<not> py_in sep s \<Longrightarrow> split_from sep cur s = [rev cur @ s]"
  by (induction s arbitrary: cur) auto

lemma parse_time_absent: "\<not> py_in ''time='' line \<Longrightarrow> parse_time line = Fin 0"
  by (simp add: parse_time_def parse_time_try_def time_token_def py_split_def split_from_absent)

lemma positive_time_has_marker:
  assumes "is_positive (parse_time line)"
  shows "line \<noteq> [] \<and> py_in ''time='' line"
proof -
  have "py_in ''time='' line"
  proof (rule ccontr)
    assume "\<not> py_in ''time='' line"
    then have "parse_time line = Fin 0" by (rule parse_time_absent)
    then show False using assms by simp
  qed
  moreover have "line \<noteq> []"
    using \<open>py_in ''time='' line\<close> by auto
  ultimately show ?thesis by simp
qed

text \<open>
  The two splits of \<^verbatim>\<open>parse_time\<close>, \<^verbatim>\<open>line.split('time=')[1].split()[0]\<close>, select
  the first word of the text between the first \<^verbatim>\<open>time=\<close> and the next one.
\<close>

lemma after_marker_absent: "sep \<noteq> [] \<Longrightarrow> after_marker sep s = None \<longleftrightarrow> \<not> py_in sep s"
  by (induction s) (cases sep; simp)+

lemma before_marker_absent: "after_marker sep s = None \<Longrightarrow> before_marker sep s = s"
  by (induction s) (auto split: if_splits)

lemma split_from_marker:
  "sep \<noteq> [] \<Longrightarrow>
     split_from sep cur s =
       (case after_marker sep s of
          None \<Rightarrow> [rev cur @ s]
        | Some a \<Rightarrow> (rev cur @ before_marker sep s) # split_from sep [] a)"
proof (induction s arbitrary: cur)
  case Nil
  then show ?case by simp
next
  case (Cons c cs)
  show ?case
  proof (cases "starts_with sep (c # cs)")
    case True
    then show ?thesis using Cons.prems by (simp add: drop_Cons')
  next
    case False
    then show ?thesis using Cons.IH [OF Cons.prems, of "c # cur"]
      by (simp split: option.splits)
  qed
qed

lemma split_from_hd:
  "sep \<noteq> [] \<Longrightarrow> \<exists>rest. split_from sep [] a = before_marker sep a # rest"
  using split_from_marker [of sep "[]" a]
  by (cases "after_marker sep a") (simp_all add: before_marker_absent)

lemma split_ws_skip: "split_ws [] (dropWhile is_space s) = split_ws [] s"
  by (induction s) simp_all

lemma split_ws_word:
  "split_ws cur s =
     (if rev cur @ takeWhile (\<lambda>c. \<not> is_space c) s = []
      then split_ws [] (dropWhile (\<lambda>c. \<not> is_space c) s)
      else (rev cur @ takeWhile (\<lambda>c. \<not> is_space c) s)
           # split_ws [] (dropWhile (\<lambda>c. \<not> is_space c) s))"
  by (induction s arbitrary: cur) auto

lemma py_split_ws_first:
  "py_split_ws s =
     (if first_word s = [] then []
      else first_word s # split_ws [] (dropWhile (\<lambda>c. \<not> is_space c) (dropWhile is_space s)))"
proof -
  let ?t = "dropWhile is_space s"
  have "py_split_ws s = split_ws [] ?t"
    by (simp add: py_split_ws_def split_ws_skip)
  also have "\<dots> = (if takeWhile (\<lambda>c. \<not> is_space c) ?t = []
                  then split_ws [] (dropWhile (\<lambda>c. \<not> is_space c) ?t)
                  else takeWhile (\<lambda>c. \<not> is_space c) ?t
                       # split_ws [] (dropWhile (\<lambda>c. \<not> is_space c) ?t))"
    using split_ws_word [of "[]" ?t] by simp
  finally have eq: "py_split_ws s =
      (if first_word s = [] then split_ws [] (dropWhile (\<lambda>c. \<not> is_space c) ?t)
       else first_word s # split_ws [] (dropWhile (\<lambda>c. \<not> is_space c) ?t))"
    by (simp add: first_word_def)
  have empty: "dropWhile is_space s = []" if "first_word s = []"
  proof (cases ?t)
    case Nil
    then show ?thesis .
  next
    case (Cons c cs)
    then have "\<not> is_space c"
      using hd_dropWhile [of is_space s] by simp
    then show ?thesis using that Cons by (simp add: first_word_def)
  qed
  have "split_ws [] (dropWhile (\<lambda>c. \<not> is_space c) ?t) = []" if "first_word s = []"
    unfolding empty [OF that] by simp
  then show ?thesis using eq by simp
qed

lemma time_token_word:
  "time_token line =
     (case after_marker ''time='' line of
        None \<Rightarrow> None
      | Some a \<Rightarrow>
          if first_word (before_marker ''time='' a) = [] then None
          else Some (first_word (before_marker ''time='' a)))"
proof (cases "after_marker ''time='' line")
  case None
  then show ?thesis
    using split_from_marker [of "''time=''" "[]" line]
    by (simp add: time_token_def py_split_def)
next
  case (Some a)
  obtain rest where rest: "split_from ''time='' [] a = before_marker ''time='' a # rest"
    using split_from_hd [of "''time=''" a] by auto
  have "py_split ''time='' line
          = before_marker ''time='' line # before_marker ''time='' a # rest"
    using split_from_marker [of "''time=''" "[]" line] Some rest
    by (simp add: py_split_def)
  then show ?thesis
    using Some py_split_ws_first [of "before_marker ''time='' a"]
    by (simp add: time_token_def)
qed

text \<open>Splitting at a single character: the fields of a word with two colons.\<close>

lemma split_from_colon_length:
  "length (split_from [c] cur s) = Suc (count_list s c)"
  by (induction s arbitrary: cur) auto

lemma split_from_no_colon: "c \<notin> set s \<Longrightarrow> split_from [c] cur s = [rev cur @ s]"
  by (induction s arbitrary: cur) auto

lemma split_from_field:
  "c \<notin> set h \<Longrightarrow> split_from [c] cur (h @ c # r) = (rev cur @ h) # split_from [c] [] r"
  by (induction h arbitrary: cur) auto

lemma py_split_three:
  assumes "c \<notin> set (h @ m @ s)"
  shows "py_split [c] (h @ [c] @ m @ [c] @ s) = [h, m, s]"
  using assms by (simp add: py_split_def split_from_field split_from_no_colon)

lemma parse_time_fields:
  assumes "time_token line = Some tok"
  shows "count_list tok CHR '':'' \<noteq> 2 \<Longrightarrow> parse_time line = Fin 0"
    and "tok = h @ '':'' @ m @ '':'' @ s \<Longrightarrow> CHR '':'' \<notin> set (h @ m @ s) \<Longrightarrow>
         parse_time line =
           (case (py_float h, py_float m, py_float s) of
              (Some x, Some y, Some z) \<Rightarrow> fadd (fadd (fmul x (Fin 3600)) (fmul y (Fin 60))) z
            | _ \<Rightarrow> Fin 0)"
proof -
  assume "count_list tok CHR '':'' \<noteq> 2"
  then have "length (map py_float (py_split '':'' tok)) \<noteq> 3"
    by (simp add: py_split_def split_from_colon_length)
  then show "parse_time line = Fin 0"
    using assms
    by (auto simp: parse_time_def parse_time_try_def split: list.splits option.splits)
next
  assume "tok = h @ '':'' @ m @ '':'' @ s" and "CHR '':'' \<notin> set (h @ m @ s)"
  then have "py_split '':'' tok = [h, m, s]"
    using py_split_three [of "CHR '':''" h m s] by simp
  then show "parse_time line =
           (case (py_float h, py_float m, py_float s) of
              (Some x, Some y, Some z) \<Rightarrow> fadd (fadd (fmul x (Fin 3600)) (fmul y (Fin 60))) z
            | _ \<Rightarrow> Fin 0)"
    using assms
    by (simp add: parse_time_def parse_time_try_def split: option.splits)
qed

text \<open>A word with exactly two colons has three fields, so the two cases above are all.\<close>

lemma two_colons_fields:
  assumes "count_list tok c = 2"
  shows "\<exists>h m s. tok = h @ [c] @ m @ [c] @ s \<and> c \<notin> set (h @ m @ s)"
proof -
  have one: "\<exists>h r. xs = h @ [c] @ r \<and> c \<notin> set h \<and> count_list r c = n"
    if "count_list xs c = Suc n" for xs n
    using that
  proof (induction xs)
    case Nil
    then show ?case by simp
  next
    case (Cons x xs)
    show ?case
    proof (cases "x = c")
      case True
      then show ?thesis using Cons.prems by (intro exI [of _ "[]"] exI [of _ xs]) simp
    next
      case False
      then obtain h r where "xs = h @ [c] @ r" "c \<notin> set h" "count_list r c = n"
        using Cons by auto
      then show ?thesis using False
        by (intro exI [of _ "x # h"] exI [of _ r]) simp
    qed
  qed
  obtain h r where h: "tok = h @ [c] @ r" "c \<notin> set h" "count_list r c = Suc 0"
    using one [of tok "Suc 0"] assms by (auto simp: numeral_2_eq_2)
  obtain m s where m: "r = m @ [c] @ s" "c \<notin> set m" "count_list s c = 0"
    using one [of r 0] h(3) by auto
  have "c \<notin> set s" using m(3) by (simp add: count_list_0_iff)
  then show ?thesis using h m by auto
qed

text \<open>
  Claim C6, as the code has it. On the line of the specification \<^verbatim>\<open>parse_time\<close> returns
  90.5. The token it reads is the first word, delimited by whitespace, of the text between
  the first \<^verbatim>\<open>time=\<close> and the next \<^verbatim>\<open>time=\<close> or the end of the line. The result is
  0, which the caller takes for no progress, when the line has no \<^verbatim>\<open>time=\<close> and when
  the token does not hold exactly two colons (the empty token among them). A token
  \<open>h:m:s\<close> of three fields gives \<open>h * 3600 + m * 60 + s\<close> in float arithmetic when
  \<^verbatim>\<open>float\<close> accepts the three fields, and 0 otherwise. \<open>parse_time\<close> is a total
  function: the bare \<^verbatim>\<open>except\<close> turns every exception of the body into the result 0.
\<close>

theorem parse_time_result:
  "parse_time ''frame=10 time=00:01:30.50 bitrate=...'' = Fin (181 / 2)
   \<and> (\<not> py_in ''time='' line \<longrightarrow> parse_time line = Fin 0)
   \<and> (\<forall>a tok. after_marker ''time='' line = Some a
               \<and> tok = first_word (before_marker ''time='' a) \<longrightarrow>
        (count_list tok CHR '':'' \<noteq> 2 \<longrightarrow> parse_time line = Fin 0)
        \<and> (\<forall>h m s. tok = h @ '':'' @ m @ '':'' @ s \<and> CHR '':'' \<notin> set (h @ m @ s) \<longrightarrow>
              parse_time line =
                (case (py_float h, py_float m, py_float s) of
                   (Some x, Some y, Some z) \<Rightarrow>
                     fadd (fadd (fmul x (Fin 3600)) (fmul y (Fin 60))) z
                 | _ \<Rightarrow> Fin 0)))"
proof (intro conjI allI impI)
  show "parse_time ''frame=10 time=00:01:30.50 bitrate=...'' = Fin (181 / 2)"
    by (simp add: py_eval)
next
  assume "\<not> py_in ''time='' line"
  then show "parse_time line = Fin 0"
    using after_marker_absent [of "''time=''" line] time_token_word [of line]
    by (simp add: parse_time_def parse_time_try_def)
next
  fix a tok
  assume a: "after_marker ''time='' line = Some a \<and> tok = first_word (before_marker ''time='' a)"
  assume c: "count_list tok CHR '':'' \<noteq> 2"
  show "parse_time line = Fin 0"
  proof (cases "tok = []")
    case True
    then have "time_token line = None" using a time_token_word [of line] by simp
    then show ?thesis by (simp add: parse_time_def parse_time_try_def)
  next
    case False
    then have "time_token line = Some tok" using a time_token_word [of line] by simp
    then show ?thesis using parse_time_fields(1) c by blast
  qed
next
  fix a tok h m s
  assume a: "after_marker ''time='' line = Some a \<and> tok = first_word (before_marker ''time='' a)"
  assume t: "tok = h @ '':'' @ m @ '':'' @ s \<and> CHR '':'' \<notin> set (h @ m @ s)"
  then have "tok \<noteq> []" by auto
  then have "time_token line = Some tok" using a time_token_word [of line] by simp
  then show "parse_time line =
                (case (py_float h, py_float m, py_float s) of
                   (Some x, Some y, Some z) \<Rightarrow>
                     fadd (fadd (fmul x (Fin 3600)) (fmul y (Fin 60))) z
                 | _ \<Rightarrow> Fin 0)"
    using parse_time_fields(2) [of line tok h m s] t by blast
qed

theorem parse_time_result_witness:
  "\<not> py_in ''time='' ''frame=10 fps=25 bitrate=1k''
   \<and> parse_time ''frame=10 fps=25 bitrate=1k'' = Fin 0
   \<and> after_marker ''time='' ''size=1 time=   '' = Some ''   ''
   \<and> first_word (before_marker ''time='' ''   '') = []
   \<and> parse_time ''size=1 time=   '' = Fin 0
   \<and> after_marker ''time='' ''frame=1 time=N/A bitrate=N/A'' = Some ''N/A bitrate=N/A''
   \<and> first_word (before_marker ''time='' ''N/A bitrate=N/A'') = ''N/A''
   \<and> count_list ''N/A'' CHR '':'' = 0
   \<and> parse_time ''frame=1 time=N/A bitrate=N/A'' = Fin 0
   \<and> after_marker ''time='' ''x time=1:2:3time=4:5:6 y'' = Some ''1:2:3time=4:5:6 y''
   \<and> first_word (before_marker ''time='' ''1:2:3time=4:5:6 y'') = ''1'' @ '':'' @ ''2'' @ '':'' @ ''3''
   \<and> CHR '':'' \<notin> set (''1'' @ ''2'' @ ''3'')
   \<and> py_float ''1'' = Some (Fin 1) \<and> py_float ''2'' = Some (Fin 2)
   \<and> py_float ''3'' = Some (Fin 3)
   \<and> parse_time ''x time=1:2:3time=4:5:6 y'' = Fin 3723
   \<and> after_marker ''time='' ''time=1:x:3'' = Some ''1:x:3''
   \<and> first_word (before_marker ''time='' ''1:x:3'') = ''1'' @ '':'' @ ''x'' @ '':'' @ ''3''
   \<and> py_float ''x'' = None
   \<and> parse_time ''time=1:x:3'' = Fin 0"
  using parse_time_result [of "''frame=10 fps=25 bitrate=1k''"]
        parse_time_result [of "''size=1 time=   ''"]
        parse_time_result [of "''frame=1 time=N/A bitrate=N/A''"]
        parse_time_result [of "''x time=1:2:3time=4:5:6 y''"]
        parse_time_result [of "''time=1:x:3''"]
  by (simp add: py_eval first_word_def)

text \<open>
  Whitespace between \<^verbatim>\<open>time=\<close> and the token is skipped, and a field that overflows
  makes the result infinite.
\<close>

lemma parse_time_spaced: "parse_time ''x time=   1:2:3 y'' = Fin 3723"
  by (simp add: py_eval)

lemma parse_time_overflow: "parse_time ''time=1e400:0:0'' = PInf"
  by (simp add: py_eval inf_of_sign_def)

text \<open>
  Claim C6 as the specification words it fails: \<^verbatim>\<open>1e1:0:0\<close> is no token of the form
  \<^verbatim>\<open>HH:MM:SS(.ms)\<close>, and the code reads it as ten hours.
\<close>

theorem parse_time_malformed_counterexample:
  "time_token ''frame=10 time=1e1:0:0 bitrate=1k'' = Some ''1e1:0:0''
   \<and> \<not> spec_time_token ''1e1:0:0''
   \<and> parse_time ''frame=10 time=1e1:0:0 bitrate=1k'' = Fin 36000"
  by (simp add: py_eval spec_time_token_def all_digits_def)

lemma spec_time_token_example: "spec_time_token ''00:01:30.50''"
  by (simp add: py_eval spec_time_token_def all_digits_def)

section \<open>Properties of the probes\<close>

lemma float_of_int_zero: "float_of_int 0 = Inr (Fin 0)"
  by (simp add: float_of_int_def round64_def)

lemmas json_eval = fetch_metadata_def read_metadata_def lift_def py_get_def py_item_def
  py_iter_def float_of_json_def initial_metadata_def float_of_int_zero

lemma get_video_duration_ok: "get_video_duration ok_env = Inr (Fin 90)"
  by (simp add: get_video_duration_def ok_env_def py_eval)

lemma get_video_duration_missing_tool:
  "get_video_duration (env\<lparr>duration_probe := Inl (FileNotFoundError m)\<rparr>) = Inr (Fin 0)"
  by (simp add: get_video_duration_def)

lemma get_video_duration_failed_tool:
  "get_video_duration (env\<lparr>duration_probe := Inl (CalledProcessError m)\<rparr>) = Inr (Fin 0)"
  by (simp add: get_video_duration_def)

lemma fetch_metadata_both_streams:
  "fetch_metadata initial_metadata (Inr both_streams) =
     Inr \<lparr>duration = Fin 90, video_codec = JStr ''h264'', audio_codec = JStr ''aac'',
          bitrate = JStr ''800000''\<rparr>"
  by (simp add: json_eval both_streams_def py_eval)

lemma fetch_metadata_video_only:
  "fetch_metadata initial_metadata (Inr video_only) =
     Inr \<lparr>duration = Fin 90, video_codec = JStr ''h264'', audio_codec = JStr [],
          bitrate = JStr ''N/A''\<rparr>"
  by (simp add: json_eval video_only_def py_eval)

text \<open>A document without the duration leaves the duration at 0.\<close>

lemma fetch_metadata_no_duration:
  "fetch_metadata initial_metadata (Inr (JObj [(''format'', JObj [])])) =
     Inr (initial_metadata\<lparr>bitrate := JStr ''N/A''\<rparr>)"
  by (simp add: json_eval)

text \<open>
  Claim C9 on its failing input. \<^verbatim>\<open>ffprobe\<close> prints \<^verbatim>\<open>N/A\<close> for a duration it does not
  know. \<^verbatim>\<open>get_video_duration\<close> then raises the ValueError of \<^verbatim>\<open>float\<close>, which its
  \<^verbatim>\<open>except\<close> clause does not name, where its docstring promises 0; \<^verbatim>\<open>fetch_metadata\<close>
  raises on the same text in the JSON document.
\<close>

theorem unparsable_duration_raises:
  "get_video_duration (env\<lparr>duration_probe := Inr (''N/A'' @ [CHR 0x0A])\<rparr>)
     = Inl (Builtin (ValueError_float ''N/A''))
   \<and> fetch_metadata initial_metadata
        (Inr (JObj [(''format'', JObj [(''duration'', JStr ''N/A'')])]))
     = Inl (Builtin (ValueError_float ''N/A''))"
  by (simp add: get_video_duration_def json_eval py_eval)

text \<open>
  Streams none of which is an audio stream leave \<^verbatim>\<open>audio_codec\<close> as it was: the empty
  string of \<^verbatim>\<open>__init__\<close>, not \<^verbatim>\<open>'N/A'\<close>.
\<close>

lemma scan_streams_no_audio:
  assumes "scan_streams m items = Inr m'"
    and "\<forall>s \<in> set items. py_item s ''codec_type'' \<noteq> Inr (JStr ''audio'')"
  shows "audio_codec m' = audio_codec m"
  using assms
proof (induction items arbitrary: m)
  case Nil
  then show ?case by simp
next
  case (Cons s items)
  then show ?case
    by (auto split: sum.splits if_splits)
qed

section \<open>Properties of the command\<close>

subsection \<open>The examples, evaluated\<close>

lemma ok_env_fields:
  "stop_before ok_env = False" "ffmpeg_version ok_env = None" "pass1 ok_env = None"
  "getsize ok_env = None" "metadata_probe ok_env = Inr both_streams" "popen ok_env = None"
  "stop_at_exit ok_env = False" "stderr_rest ok_env = []"
  by (simp_all add: ok_env_def)

lemma copy_job_fields:
  "input_path (copy_job n r) = n @ ''.mov''" "output_path (copy_job n r) = n @ ''.mp4''"
  "audio_settings (copy_job n r) = copy_audio" "resize_settings (copy_job n r) = r"
  by (simp_all add: copy_job_def)

lemma resize_job_fields:
  "input_path resize_job = ''a.mov''" "output_path resize_job = ''a.mp4''"
  "audio_settings resize_job = copy_audio"
  "resize_settings resize_job = Some [''scale=640:360'']"
  by (simp_all add: resize_job_def copy_job_def)

lemma plain_fields:
  "conversion_queue plain = []" "is_stopped plain = False" "target_size_mb plain = None"
  "size_reduction_method_selected plain = single_pass"
  by (simp_all add: plain_def)

lemma two_pass_converter_fields:
  "is_stopped two_pass_converter = False" "target_size_mb two_pass_converter = None"
  "size_reduction_method_selected two_pass_converter = two_pass"
  by (simp_all add: two_pass_converter_def plain_def)

lemma queue3_fields:
  "conversion_queue queue3 = [copy_job ''a'' None, copy_job ''b'' None, copy_job ''c'' None]"
  "is_stopped queue3 = False" "target_size_mb queue3 = None"
  by (simp_all add: queue3_def plain_def)

lemma silent_env_fields:
  "ffmpeg_version silent_env = None" "getsize silent_env = None"
  "metadata_probe silent_env = Inr video_only"
  "duration_probe silent_env = duration_probe ok_env"
  by (simp_all add: silent_env_def ok_env_def)

lemma no_duration_fields:
  "ffmpeg_version no_duration = None" "stop_before no_duration = False"
  by (simp_all add: no_duration_def ok_env_def)

lemma zero_duration_fields: "ffmpeg_version zero_duration = None"
  by (simp add: zero_duration_def ok_env_def)

lemma get_video_duration_silent: "get_video_duration silent_env = Inr (Fin 90)"
  using get_video_duration_ok by (simp add: get_video_duration_def silent_env_fields)

lemma get_video_duration_none: "get_video_duration no_duration = Inr (Fin 0)"
  by (simp add: get_video_duration_def no_duration_def)

lemma get_video_duration_zero: "get_video_duration zero_duration = Inr (Fin 0)"
  by (simp add: get_video_duration_def zero_duration_def py_eval)

lemma build_cmd_ok:
  "build_cmd c (copy_job n None) ok_env None =
     ([Run version_cmd, Run (duration_cmd (n @ ''.mov'')), Run (metadata_cmd (n @ ''.mov''))],
      Inr (Fin 90, [''ffmpeg'', ''-y'', ''-i'', n @ ''.mov'', ''-c:v'', ''copy'',
                    ''-c:a'', ''copy'', n @ ''.mp4'']))"
  by (simp add: build_cmd_def check_ffmpeg_def get_video_duration_ok video_settings_def
      audio_args_def new_VideoMetadata_def fetch_metadata_both_streams ok_env_fields
      copy_job_fields copy_audio_def truthy_def)

lemma build_cmd_resize:
  "build_cmd plain resize_job ok_env None =
     ([Run version_cmd, Run (duration_cmd ''a.mov''), Run (metadata_cmd ''a.mov'')],
      Inr (Fin 90, resize_cmd))"
  by (simp add: build_cmd_def check_ffmpeg_def get_video_duration_ok video_settings_def
      audio_args_def new_VideoMetadata_def fetch_metadata_both_streams ok_env_fields
      resize_job_fields plain_fields copy_audio_def aac_audio_def truthy_def resize_cmd_def)

lemma on_stderr_line_45:
  "on_stderr_line p (Fin 90) ''frame=1 time=00:00:45.00 bitrate=1k'' = Inr [Progress p 50]"
  by (simp add: on_stderr_line_def parse_time_45 progress_percent_45)

lemma on_stderr_line_empty: "on_stderr_line p dur [] = Inr []"
  by (simp add: on_stderr_line_def)

lemma monitor_ok:
  "\<not> is_stopped c \<Longrightarrow>
     monitor p (Fin 90) c (iterations ok_env) = Some ([Progress p 50], c, Inr (Some 0))"
  by (simp add: ok_env_def observe_def on_stderr_line_45 on_stderr_line_empty)

lemma convert_ok:
  "\<not> is_stopped c \<Longrightarrow>
     convert rt c (copy_job n None) ok_env None = Some (trace_ok n, c, Inr ())"
  by (simp add: convert_def convert_try_def build_cmd_ok monitor_ok ok_env_fields
      copy_job_fields exit_check_def observe_def trace_ok_def)

lemma convert_resize:
  "convert rt plain resize_job ok_env None =
     Some ([Run version_cmd, Run (duration_cmd ''a.mov''), Run (metadata_cmd ''a.mov''),
            Popen resize_cmd, Progress ''a.mov'' 50], plain, Inr ())"
  by (simp add: convert_def convert_try_def build_cmd_resize monitor_ok plain_fields
      ok_env_fields resize_job_fields exit_check_def observe_def)

subsection \<open>A duration of 0\<close>

text \<open>
  Claim C5. When the version check has passed and the probed duration equals 0,
  \<^verbatim>\<open>convert\<close> has run the version check and the probe and nothing else, neither a first
  pass nor the encoder, and raises the exception whose text says for which input the
  duration could not be determined.
\<close>

theorem duration_zero_aborts:
  assumes "ffmpeg_version env = None" and "get_video_duration env = Inr dur" and "is_zero dur"
  shows "convert rt c j env tgt =
           Some ([Run version_cmd, Run (duration_cmd (input_path j))], c,
                 Inl (Exception (''Conversion failed for '' @ input_path j
                                  @ '': Could not determine video duration'')))"
  using assms
  by (simp add: convert_def convert_try_def build_cmd_def check_ffmpeg_def
      conversion_failed_def)

theorem duration_zero_aborts_witness:
  "ffmpeg_version zero_duration = None \<and> get_video_duration zero_duration = Inr (Fin 0)
   \<and> is_zero (Fin 0)
   \<and> convert (\<lambda>b. []) plain (copy_job ''a'' None) zero_duration None =
        Some ([Run version_cmd, Run (duration_cmd ''a.mov'')], plain,
              Inl (Exception ''Conversion failed for a.mov: Could not determine video duration''))"
  using duration_zero_aborts [OF zero_duration_fields get_video_duration_zero,
          of "\<lambda>b. []" plain "copy_job ''a'' None" None]
    zero_duration_fields get_video_duration_zero
  by (simp add: copy_job_fields)

subsection \<open>Where the events come from\<close>

lemma video_settings_runs:
  "video_settings c j env tgt dur = (evs, r) \<Longrightarrow> list_all is_run evs"
  by (auto simp: video_settings_def is_run_def Let_def
           split: option.splits list.splits sum.splits if_splits)

lemma audio_args_runs: "audio_args j env = (evs, r) \<Longrightarrow> list_all is_run evs"
  by (auto simp: audio_args_def new_VideoMetadata_def is_run_def
           split: option.splits sum.splits prod.splits if_splits)

lemma build_cmd_runs: "build_cmd c j env tgt = (evs, r) \<Longrightarrow> list_all is_run evs"
  by (auto simp: build_cmd_def is_run_def Let_def split: sum.splits prod.splits if_splits
           dest: video_settings_runs audio_args_runs)

lemma monitor_no_popen:
  "monitor input dur c its = Some (evs, c', r) \<Longrightarrow> Popen cmd \<notin> set evs"
proof (induction its arbitrary: c evs c' r)
  case Nil
  then show ?case by simp
next
  case (Cons it its)
  then show ?case
    by (auto simp: Let_def on_stderr_line_def
             split: if_splits sum.splits option.splits prod.splits)
qed

text \<open>The only \<open>Popen\<close> of a call of \<^verbatim>\<open>convert\<close> is that of the command it has built.\<close>

lemma convert_popen:
  assumes "convert rt c j env tgt = Some (evs, c', r)" and "Popen cmd \<in> set evs"
  shows "\<exists>evs0 dur. build_cmd c j env tgt = (evs0, Inr (dur, cmd))"
proof -
  obtain evs0 b where b: "build_cmd c j env tgt = (evs0, b)"
    by (cases "build_cmd c j env tgt")
  have "list_all is_run evs0"
    using build_cmd_runs [OF b] .
  then have nop: "Popen cmd \<notin> set evs0"
    by (auto simp: list_all_iff is_run_def)
  show ?thesis
  proof (cases b)
    case (Inl e)
    with assms b nop show ?thesis
      by (auto simp: convert_def convert_try_def)
  next
    case (Inr dc)
    obtain dur cmd' where dc: "dc = (dur, cmd')"
      by (cases dc)
    have "cmd = cmd'"
      using assms b nop Inr dc monitor_no_popen [of "input_path j" dur c "iterations env"]
      by (auto simp: convert_def convert_try_def exit_check_def Let_def
               split: option.splits sum.splits prod.splits if_splits)
    with b Inr dc show ?thesis by simp
  qed
qed

subsection \<open>Audio policy Copy\<close>

lemma video_settings_resized:
  assumes "truthy (resize_settings j)" and "video_settings c j env tgt dur = (evs, Inr video)"
  shows "\<exists>f rate. video = [''-vf'', f, ''-c:v'', ''libx264''] @ rate
           \<and> (rate = [] \<or> (\<exists>b. rate = [''-b:v'', kbps b, ''-crf'', ''23''])
                \<or> (\<exists>b. rate = [''-c:v'', ''libx264'', ''-pass'', ''2'',
                                 ''-b:v'', kbps b, ''-maxrate'', kbps b]))"
  using assms
  by (auto simp: video_settings_def truthy_def Let_def
           split: option.splits list.splits sum.splits if_splits)

lemma audio_args_copy_resized:
  assumes "audio_settings j = copy_audio" and "truthy (resize_settings j)"
    and "audio_args j env = (evs, Inr audio)"
  shows "audio = aac_audio"
  using assms
  by (auto simp: audio_args_def split: prod.splits sum.splits if_splits)

lemma build_cmd_copy_resized:
  assumes "audio_settings j = copy_audio" and "truthy (resize_settings j)"
    and "build_cmd c j env tgt = (evs, Inr (dur, cmd))"
  shows "(\<exists>pre. cmd = pre @ aac_audio @ [output_path j]) \<and> \<not> adjacent ''-c:a'' ''copy'' cmd"
proof -
  from assms(3) obtain evs1 video evs2 audio where
    v: "video_settings c j env tgt dur = (evs1, Inr video)" and
    a: "audio_args j env = (evs2, Inr audio)" and
    cmd: "cmd = [''ffmpeg'', ''-y'', ''-i'', input_path j] @ video @ audio @ [output_path j]"
    by (auto simp: build_cmd_def Let_def split: sum.splits prod.splits if_splits)
  have audio: "audio = aac_audio"
    using audio_args_copy_resized [OF assms(1,2) a] .
  from video_settings_resized [OF assms(2) v] obtain f rate where
    video: "video = [''-vf'', f, ''-c:v'', ''libx264''] @ rate" and
    rate: "rate = [] \<or> (\<exists>b. rate = [''-b:v'', kbps b, ''-crf'', ''23''])
           \<or> (\<exists>b. rate = [''-c:v'', ''libx264'', ''-pass'', ''2'',
                            ''-b:v'', kbps b, ''-maxrate'', kbps b])"
    by blast
  have shape: "\<exists>pre. cmd = pre @ aac_audio @ [output_path j]"
    using cmd audio by simp
  have "\<not> adjacent ''-c:a'' ''copy'' cmd"
    using rate by (auto simp: cmd audio video aac_audio_def)
  with shape show ?thesis by simp
qed

text \<open>
  Claim C8. For a job with the audio policy Copy and resize settings, the command with
  which \<^verbatim>\<open>convert\<close> starts the encoder ends with the AAC arguments and the output path,
  and nowhere in it does \<^verbatim>\<open>copy\<close> follow \<^verbatim>\<open>-c:a\<close>.
\<close>

theorem copy_with_resize_uses_aac:
  assumes "audio_settings j = copy_audio" and "truthy (resize_settings j)"
    and "convert rt c j env tgt = Some (evs, c', r)" and "Popen cmd \<in> set evs"
  shows "(\<exists>pre. cmd = pre @ aac_audio @ [output_path j]) \<and> \<not> adjacent ''-c:a'' ''copy'' cmd"
proof -
  from convert_popen [OF assms(3,4)] obtain evs0 dur where
    "build_cmd c j env tgt = (evs0, Inr (dur, cmd))" by blast
  then show ?thesis
    using build_cmd_copy_resized [OF assms(1,2)] by blast
qed

theorem copy_with_resize_uses_aac_witness:
  "audio_settings resize_job = copy_audio \<and> truthy (resize_settings resize_job)
   \<and> convert (\<lambda>b. []) plain resize_job ok_env None =
        Some ([Run version_cmd, Run (duration_cmd ''a.mov''), Run (metadata_cmd ''a.mov''),
               Popen resize_cmd, Progress ''a.mov'' 50], plain, Inr ())
   \<and> resize_cmd = [''ffmpeg'', ''-y'', ''-i'', ''a.mov'', ''-vf'', ''scale=640:360'',
                    ''-c:v'', ''libx264''] @ aac_audio @ [output_path resize_job]
   \<and> \<not> adjacent ''-c:a'' ''copy'' resize_cmd"
proof -
  have a: "audio_settings resize_job = copy_audio" and t: "truthy (resize_settings resize_job)"
    by (simp_all add: resize_job_fields truthy_def)
  have p: "Popen resize_cmd \<in> set [Run version_cmd, Run (duration_cmd ''a.mov''),
             Run (metadata_cmd ''a.mov''), Popen resize_cmd, Progress ''a.mov'' 50]"
    by simp
  from copy_with_resize_uses_aac [OF a t convert_resize [of "\<lambda>b. []"] p]
  have "\<not> adjacent ''-c:a'' ''copy'' resize_cmd" by simp
  moreover have "resize_cmd = [''ffmpeg'', ''-y'', ''-i'', ''a.mov'', ''-vf'',
      ''scale=640:360'', ''-c:v'', ''libx264''] @ aac_audio @ [output_path resize_job]"
    by (simp add: resize_cmd_def aac_audio_def resize_job_fields)
  ultimately show ?thesis
    using a t convert_resize by simp
qed

text \<open>The command of the first pass drops the audio and has no audio codec argument.\<close>

lemma cmd_pass1_no_copy: "\<not> adjacent ''-c:a'' ''copy'' (cmd_pass1 input)"
  by (simp add: cmd_pass1_def)

text \<open>
  Claim C2 on its failing input: a file with a video stream and no audio stream, the audio
  policy Copy and no resizing. \<^verbatim>\<open>fetch_metadata\<close> assigns \<^verbatim>\<open>audio_codec\<close> only inside
  the loop, for an audio stream, so the field keeps the empty string, the comparison with
  \<^verbatim>\<open>'N/A'\<close> fails, and the command asks for a stream copy of the audio.
\<close>

theorem copy_without_audio_stream_kept:
  "fetch_metadata initial_metadata (Inr video_only) =
     Inr \<lparr>duration = Fin 90, video_codec = JStr ''h264'', audio_codec = JStr [],
          bitrate = JStr ''N/A''\<rparr>
   \<and> build_cmd plain (copy_job ''a'' None) silent_env None =
       ([Run version_cmd, Run (duration_cmd ''a.mov''), Run (metadata_cmd ''a.mov'')],
        Inr (Fin 90, [''ffmpeg'', ''-y'', ''-i'', ''a.mov'', ''-c:v'', ''copy'',
                      ''-c:a'', ''copy'', ''a.mp4'']))"
  by (simp add: build_cmd_def check_ffmpeg_def get_video_duration_silent video_settings_def
      audio_args_def new_VideoMetadata_def fetch_metadata_video_only silent_env_fields
      copy_job_fields copy_audio_def truthy_def)

text \<open>An audio stream without a codec name is what does give \<^verbatim>\<open>'N/A'\<close> and the AAC arguments.\<close>

lemma audio_args_unnamed_codec:
  "audio_args (copy_job n None)
     (ok_env\<lparr>metadata_probe := Inr (JObj [(''streams'', JArr [JObj [(''codec_type'', JStr ''audio'')]])])\<rparr>)
   = ([Run (metadata_cmd (n @ ''.mov''))], Inr aac_audio)"
  by (simp add: audio_args_def new_VideoMetadata_def json_eval copy_job_fields ok_env_def)

subsection \<open>The target bitrate\<close>

lemma two_pass_not_single: "two_pass \<noteq> single_pass"
  by (simp add: two_pass_def single_pass_def)

lemma bitrate_kbps_bounds: "bitrate_kbps mb dur = Inr b \<Longrightarrow> 100 \<le> b \<and> b \<le> 8000"
  by (auto simp: bitrate_kbps_def split: sum.splits)

lemma bitrate_kbps_binary64:
  assumes "bitrate_kbps mb (Fin d) = Inr b" and "0 < d"
  shows "\<exists>n. round64 (of_int (mb * 1024 * 1024 * 8)) = Fin n
           \<and> (case round64 (d * 1000) of
                 Fin m \<Rightarrow> m \<noteq> 0 \<and> (\<exists>q. round64 (n / m) = Fin q
                                      \<and> b = max 100 (min (trunc q) 8000))
               | PInf \<Rightarrow> b = 100
               | _ \<Rightarrow> False)"
proof -
  obtain n where n: "round64 (of_int (mb * 1024 * 1024 * 8)) = Fin n"
    using assms(1) by (auto simp: bitrate_kbps_def float_of_int_def split: pyfloat.splits)
  then have bits: "float_of_int (mb * 1024 * 1024 * 8) = Inr (Fin n)"
    by (simp add: float_of_int_def)
  from assms(2) have "0 \<le> d * 1000" by simp
  from round64_nonneg [OF this] show ?thesis
  proof
    assume inf: "round64 (d * 1000) = PInf"
    then have "b = 100"
      using assms(1) bits by (simp add: bitrate_kbps_def fmul_def fdiv_def trunc_def)
    then show ?thesis using n inf by simp
  next
    assume "\<exists>m. round64 (d * 1000) = Fin m \<and> 0 \<le> m"
    then obtain m where m: "round64 (d * 1000) = Fin m" by blast
    have "m \<noteq> 0 \<and> (\<exists>q. round64 (n / m) = Fin q \<and> b = max 100 (min (trunc q) 8000))"
      using assms(1) bits m
      by (auto simp: bitrate_kbps_def fmul_def fdiv_def split: if_splits sum.splits
               elim: py_int.elims)
    then show ?thesis using n m by simp
  qed
qed

lemma adjacent_append1: "adjacent a b xs \<Longrightarrow> adjacent a b (xs @ ys)"
  by (induction a b xs rule: adjacent.induct) auto

lemma adjacent_Cons: "adjacent a b ys \<Longrightarrow> adjacent a b (x # ys)"
  by (cases ys) auto

lemma adjacent_append2: "adjacent a b ys \<Longrightarrow> adjacent a b (xs @ ys)"
  by (induction xs) (auto intro: adjacent_Cons)

lemma video_settings_rate:
  assumes "video_settings c j env (Some mb) dur = (evs, Inr video)"
    and "size_reduction_method_selected c = single_pass
         \<or> size_reduction_method_selected c = two_pass"
  shows "\<exists>b. bitrate_kbps mb dur = Inr b \<and> adjacent ''-b:v'' (kbps b) video
           \<and> (size_reduction_method_selected c = two_pass
                \<longrightarrow> adjacent ''-maxrate'' (kbps b) video)"
  using assms two_pass_not_single
  by (auto simp: video_settings_def Let_def split: option.splits list.splits sum.splits if_splits)

lemma build_cmd_rate:
  assumes "build_cmd c j env (Some mb) = (evs, Inr (dur, cmd))"
    and "size_reduction_method_selected c = single_pass
         \<or> size_reduction_method_selected c = two_pass"
  shows "get_video_duration env = Inr dur \<and> \<not> is_zero dur
         \<and> (\<exists>b. bitrate_kbps mb dur = Inr b \<and> adjacent ''-b:v'' (kbps b) cmd
                \<and> (size_reduction_method_selected c = two_pass
                     \<longrightarrow> adjacent ''-maxrate'' (kbps b) cmd))"
proof -
  from assms(1) obtain evs1 video audio where
    d: "get_video_duration env = Inr dur" "\<not> is_zero dur" and
    v: "video_settings c j env (Some mb) dur = (evs1, Inr video)" and
    cmd: "cmd = [''ffmpeg'', ''-y'', ''-i'', input_path j] @ video @ (audio @ [output_path j])"
    by (auto simp: build_cmd_def Let_def split: sum.splits prod.splits if_splits)
  from video_settings_rate [OF v assms(2)] obtain b where
    b: "bitrate_kbps mb dur = Inr b" "adjacent ''-b:v'' (kbps b) video"
       "size_reduction_method_selected c = two_pass \<longrightarrow> adjacent ''-maxrate'' (kbps b) video"
    by blast
  have "adjacent x y video \<Longrightarrow> adjacent x y cmd" for x y
    unfolding cmd by (intro adjacent_append2 adjacent_append1)
  then show ?thesis using d b by blast
qed

text \<open>
  Claim C1, as the code has it. For a job with a target size and one of the two encoding
  methods, whenever \<^verbatim>\<open>convert\<close> starts the encoder, the probed duration is not 0 and
  the command holds \<^verbatim>\<open>-b:v\<close> (with two passes also \<^verbatim>\<open>-maxrate\<close>) followed by a
  bitrate \<open>b\<close> between 100 and 8000. For a finite duration \<open>d > 0\<close>, \<open>b\<close> is the
  specification's formula with each float operation rounded to binary64: the number of bits
  \<open>target_size_mb * 1024 * 1024 * 8\<close> as a float, divided by the rounded product
  \<open>d * 1000\<close>, the rounded quotient truncated and clamped into 100 .. 8000; when the
  product overflows, \<open>b\<close> is 100.
\<close>

theorem convert_bitrate_clamped:
  assumes "convert rt c j env (Some mb) = Some (evs, c', r)" and "Popen cmd \<in> set evs"
    and "size_reduction_method_selected c = single_pass
         \<or> size_reduction_method_selected c = two_pass"
  shows "\<exists>dur b. get_video_duration env = Inr dur \<and> \<not> is_zero dur
           \<and> 100 \<le> b \<and> b \<le> 8000 \<and> adjacent ''-b:v'' (kbps b) cmd
           \<and> (size_reduction_method_selected c = two_pass
                \<longrightarrow> adjacent ''-maxrate'' (kbps b) cmd)
           \<and> (\<forall>d. dur = Fin d \<and> 0 < d \<longrightarrow>
                 (\<exists>n. round64 (of_int (mb * 1024 * 1024 * 8)) = Fin n
                     \<and> (case round64 (d * 1000) of
                           Fin m \<Rightarrow> m \<noteq> 0 \<and> (\<exists>q. round64 (n / m) = Fin q
                                                \<and> b = max 100 (min (trunc q) 8000))
                         | PInf \<Rightarrow> b = 100
                         | _ \<Rightarrow> False)))"
proof -
  from convert_popen [OF assms(1,2)] obtain evs0 dur where
    "build_cmd c j env (Some mb) = (evs0, Inr (dur, cmd))" by blast
  from build_cmd_rate [OF this assms(3)] obtain b where
    d: "get_video_duration env = Inr dur" "\<not> is_zero dur" and
    b: "bitrate_kbps mb dur = Inr b" "adjacent ''-b:v'' (kbps b) cmd"
       "size_reduction_method_selected c = two_pass \<longrightarrow> adjacent ''-maxrate'' (kbps b) cmd"
    by blast
  have "100 \<le> b \<and> b \<le> 8000"
    using bitrate_kbps_bounds [OF b(1)] .
  moreover have "\<forall>d. dur = Fin d \<and> 0 < d \<longrightarrow>
                 (\<exists>n. round64 (of_int (mb * 1024 * 1024 * 8)) = Fin n
                     \<and> (case round64 (d * 1000) of
                           Fin m \<Rightarrow> m \<noteq> 0 \<and> (\<exists>q. round64 (n / m) = Fin q
                                                \<and> b = max 100 (min (trunc q) 8000))
                         | PInf \<Rightarrow> b = 100
                         | _ \<Rightarrow> False))"
    using bitrate_kbps_binary64 b(1) by blast
  ultimately show ?thesis using d b(2,3) by blast
qed

text \<open>The examples: 10 MB over 90 seconds, and 17 MB over 285.212672 seconds.\<close>

lemma get_video_duration_long:
  "get_video_duration long_env = Inr (Fin (2508757194024499 / 2 ^ 43))"
  using py_float_285
  by (simp add: get_video_duration_def long_env_def py_strip_def is_space_def)

lemma bitrate_kbps_long: "bitrate_kbps 17 (Fin (2508757194024499 / 2 ^ 43)) = Inr 499"
  by (simp add: bitrate_kbps_def py_eval)

lemma bitrate_kbps_90: "bitrate_kbps 10 (Fin 90) = Inr 932"
  by (simp add: bitrate_kbps_def py_eval)

lemma kbps_examples: "kbps 932 = ''932k''" "kbps 499 = ''499k''"
  by (simp_all add: kbps_def str_int_def str_nat.simps)

lemma long_env_fields:
  "stop_before long_env = False" "ffmpeg_version long_env = None" "pass1 long_env = None"
  "getsize long_env = None" "metadata_probe long_env = Inr both_streams"
  "popen long_env = None" "stop_at_exit long_env = False" "stderr_rest long_env = []"
  "iterations long_env = iterations ok_env"
  by (simp_all add: long_env_def ok_env_def)

lemma build_cmd_target:
  "build_cmd plain (copy_job ''a'' None) ok_env (Some 10) =
     ([Run version_cmd, Run (duration_cmd ''a.mov''), Run (metadata_cmd ''a.mov'')],
      Inr (Fin 90, target_cmd ''932k''))"
  by (simp add: build_cmd_def check_ffmpeg_def get_video_duration_ok video_settings_def
      audio_args_def new_VideoMetadata_def fetch_metadata_both_streams ok_env_fields
      copy_job_fields plain_fields copy_audio_def truthy_def bitrate_kbps_90 kbps_examples
      target_cmd_def)

lemma convert_target:
  "convert rt plain (copy_job ''a'' None) ok_env (Some 10) =
     Some ([Run version_cmd, Run (duration_cmd ''a.mov''), Run (metadata_cmd ''a.mov''),
            Popen (target_cmd ''932k''), Progress ''a.mov'' 50], plain, Inr ())"
  by (simp add: convert_def convert_try_def build_cmd_target monitor_ok plain_fields
      ok_env_fields copy_job_fields exit_check_def observe_def)

lemma build_cmd_long:
  "build_cmd plain (copy_job ''a'' None) long_env (Some 17) =
     ([Run version_cmd, Run (duration_cmd ''a.mov''), Run (metadata_cmd ''a.mov'')],
      Inr (Fin (2508757194024499 / 2 ^ 43), target_cmd ''499k''))"
  using get_video_duration_long bitrate_kbps_long
  by (simp add: build_cmd_def check_ffmpeg_def video_settings_def
      audio_args_def new_VideoMetadata_def fetch_metadata_both_streams long_env_fields
      copy_job_fields plain_fields copy_audio_def truthy_def kbps_examples target_cmd_def)

lemma progress_percent_long:
  "progress_percent (Fin 45) (Fin (2508757194024499 / 2 ^ 43)) = Inr 15"
  by (simp add: progress_percent_def py_eval)

lemma monitor_long:
  "\<not> is_stopped c \<Longrightarrow>
     monitor p (Fin (2508757194024499 / 2 ^ 43)) c (iterations ok_env)
       = Some ([Progress p 15], c, Inr (Some 0))"
  using progress_percent_long
  by (simp add: ok_env_def observe_def on_stderr_line_def parse_time_45)

lemma convert_long:
  "convert rt plain (copy_job ''a'' None) long_env (Some 17) =
     Some ([Run version_cmd, Run (duration_cmd ''a.mov''), Run (metadata_cmd ''a.mov''),
            Popen (target_cmd ''499k''), Progress ''a.mov'' 15], plain, Inr ())"
  using build_cmd_long monitor_long [of plain "''a.mov''"]
  by (simp add: convert_def convert_try_def plain_fields
      long_env_fields copy_job_fields exit_check_def observe_def)

lemma round64_bitrate_examples:
  "round64 (of_int (10 * 1024 * 1024 * 8)) = Fin 83886080"
  "round64 (90 * 1000) = Fin 90000"
  "round64 (83886080 / 90000) = Fin (4099276460824345 / 2 ^ 42)"
  by (simp_all add: f_eval)

theorem convert_bitrate_clamped_witness:
  "convert (\<lambda>b. []) plain (copy_job ''a'' None) ok_env (Some 10) =
     Some ([Run version_cmd, Run (duration_cmd ''a.mov''), Run (metadata_cmd ''a.mov''),
            Popen (target_cmd ''932k''), Progress ''a.mov'' 50], plain, Inr ())
   \<and> size_reduction_method_selected plain = single_pass
   \<and> get_video_duration ok_env = Inr (Fin 90)
   \<and> round64 (of_int (10 * 1024 * 1024 * 8)) = Fin 83886080
   \<and> round64 (90 * 1000) = Fin 90000
   \<and> round64 (83886080 / 90000) = Fin (4099276460824345 / 2 ^ 42)
   \<and> trunc (4099276460824345 / 2 ^ 42) = 932
   \<and> adjacent ''-b:v'' (kbps 932) (target_cmd ''932k'')"
proof -
  have p: "Popen (target_cmd ''932k'') \<in> set [Run version_cmd, Run (duration_cmd ''a.mov''),
             Run (metadata_cmd ''a.mov''), Popen (target_cmd ''932k''), Progress ''a.mov'' 50]"
    by simp
  have m: "size_reduction_method_selected plain = single_pass
           \<or> size_reduction_method_selected plain = two_pass"
    by (simp add: plain_fields)
  from convert_bitrate_clamped [OF convert_target [of "\<lambda>b. []"] p m]
  have "\<exists>b. adjacent ''-b:v'' (kbps b) (target_cmd ''932k'')" by blast
  moreover have "adjacent ''-b:v'' (kbps 932) (target_cmd ''932k'')"
    by (simp add: kbps_examples target_cmd_def)
  moreover have "trunc (4099276460824345 / 2 ^ 42) = 932"
    by (simp add: trunc_def floor_rat_numeral)
  ultimately show ?thesis
    using convert_target get_video_duration_ok round64_bitrate_examples
    by (simp add: plain_fields)
qed

text \<open>
  Claim C1 as the specification words it fails. For 17 MB and a probe that prints
  \<^verbatim>\<open>285.212672\<close> the exact quotient is 500, for the decimal as for the float that
  \<^verbatim>\<open>float\<close> makes of it; the product \<open>d * 1000\<close> is rounded up, the quotient falls
  below 500, and the command of \<^verbatim>\<open>convert\<close> asks for 499.
\<close>

theorem bitrate_exact_counterexample:
  "get_video_duration long_env = Inr (Fin (2508757194024499 / 2 ^ 43))
   \<and> convert (\<lambda>b. []) plain (copy_job ''a'' None) long_env (Some 17) =
       Some ([Run version_cmd, Run (duration_cmd ''a.mov''), Run (metadata_cmd ''a.mov''),
              Popen (target_cmd ''499k''), Progress ''a.mov'' 15], plain, Inr ())
   \<and> spec_bitrate (17 * 1024 * 1024) (2508757194024499 / 2 ^ 43) = 500
   \<and> spec_bitrate (17 * 1024 * 1024) (285212672 / 1000000) = 500"
  using get_video_duration_long convert_long [of "\<lambda>b. []"]
  by (simp add: spec_bitrate_def trunc_def floor_rat_numeral)

text \<open>
  Two more values that the rounding moves below the exact quotient, and further bounds: an
  infinite duration gives 100, and a quotient that overflows raises.
\<close>

lemma bitrate_kbps_503:
  "py_float ''503.316480'' = Some (Fin (8854437155380585 / 2 ^ 44))
   \<and> bitrate_kbps 12 (Fin (8854437155380585 / 2 ^ 44)) = Inr 199"
  by (simp add: bitrate_kbps_def py_eval)

lemma bitrate_kbps_62:
  "py_float ''62.914560'' = Some (Fin (8854437155380585 / 2 ^ 47))
   \<and> bitrate_kbps 3 (Fin (8854437155380585 / 2 ^ 47)) = Inr 399"
  by (simp add: bitrate_kbps_def py_eval)

lemma bitrate_kbps_infinite: "bitrate_kbps 10 PInf = Inr 100"
  by (simp add: bitrate_kbps_def py_eval)

lemma bitrate_kbps_overflow:
  assumes "float_of_int (mb * 1024 * 1024 * 8) = Inr (Fin n)" and "m \<noteq> 0"
    and "round64 (d * 1000) = Fin m" and "round64 (n / m) = PInf"
  shows "bitrate_kbps mb (Fin d) = Inl OverflowError_int_inf"
  using assms by (simp add: bitrate_kbps_def fmul_def fdiv_def)

section \<open>Properties of the progress signal\<close>

lemma progress_percent_fin:
  assumes "0 < e" and "0 < d"
  shows "progress_percent (Fin e) (Fin d) =
     (case round64 (e / d) of
        Fin q \<Rightarrow>
          (case round64 (q * 100) of
             Fin v \<Rightarrow> Inr (min 100 \<lfloor>v\<rfloor>)
           | _ \<Rightarrow> Inl OverflowError_int_inf)
      | _ \<Rightarrow> Inl OverflowError_int_inf)"
proof -
  from assms have "0 \<le> e / d" by simp
  from round64_nonneg [OF this] show ?thesis
  proof
    assume "round64 (e / d) = PInf"
    then show ?thesis using assms
      by (simp add: progress_percent_def fdiv_def fmul_def inf_of_sign_def)
  next
    assume "\<exists>q. round64 (e / d) = Fin q \<and> 0 \<le> q"
    then obtain q where q: "round64 (e / d) = Fin q" "0 \<le> q" by blast
    then have "0 \<le> q * 100" by simp
    from round64_nonneg [OF this] show ?thesis
    proof
      assume "round64 (q * 100) = PInf"
      then show ?thesis using assms q
        by (simp add: progress_percent_def fdiv_def fmul_def)
    next
      assume "\<exists>v. round64 (q * 100) = Fin v \<and> 0 \<le> v"
      then obtain v where "round64 (q * 100) = Fin v" "0 \<le> v" by blast
      then show ?thesis using assms q
        by (simp add: progress_percent_def fdiv_def fmul_def trunc_nonneg min.commute)
    qed
  qed
qed

lemma progress_percent_value:
  assumes "progress_percent t (Fin d) = Inr pct" and "is_positive t" and "0 < d"
  shows "\<exists>e q v. t = Fin e \<and> 0 < e \<and> round64 (e / d) = Fin q \<and> round64 (q * 100) = Fin v
           \<and> 0 \<le> v \<and> pct = min 100 \<lfloor>v\<rfloor>"
proof (cases t)
  case (Fin e)
  then have e: "0 < e" using assms(2) by simp
  then have "0 \<le> e / d" using assms(3) by simp
  from round64_nonneg [OF this] obtain q where q: "round64 (e / d) = Fin q" "0 \<le> q"
    using assms(1) progress_percent_fin [OF e assms(3)] Fin by auto
  then have "0 \<le> q * 100" by simp
  from round64_nonneg [OF this] obtain v where v: "round64 (q * 100) = Fin v" "0 \<le> v"
    using assms(1) progress_percent_fin [OF e assms(3)] Fin q by auto
  then have "pct = min 100 \<lfloor>v\<rfloor>"
    using assms(1) progress_percent_fin [OF e assms(3)] Fin q by simp
  then show ?thesis using Fin e q v by blast
next
  case PInf
  then show ?thesis using assms
    by (simp add: progress_percent_def fdiv_def fmul_def inf_of_sign_def)
next
  case NInf
  then show ?thesis using assms by simp
next
  case NaN
  then show ?thesis using assms by simp
qed

lemma on_stderr_line_events:
  assumes "on_stderr_line input dur line = Inr es" and "ev \<in> set es"
  shows "es = [ev] \<and> is_positive (parse_time line)
         \<and> (\<exists>pct. progress_percent (parse_time line) dur = Inr pct \<and> ev = Progress input pct)"
  using assms by (auto simp: on_stderr_line_def split: if_splits sum.splits)

lemma monitor_progress:
  "monitor input dur c its = Some (evs, c', r) \<Longrightarrow> ev \<in> set evs \<Longrightarrow> ev \<noteq> Terminate \<Longrightarrow>
     \<exists>it \<in> set its. on_stderr_line input dur (stderr_line it) = Inr [ev]"
proof (induction its arbitrary: c evs c' r)
  case Nil
  then show ?case by simp
next
  case (Cons it its)
  show ?case
  proof (cases "is_stopped (observe (stop_called it) c)")
    case True
    then show ?thesis using Cons.prems by (auto simp: Let_def)
  next
    case False
    show ?thesis
    proof (cases "on_stderr_line input dur (stderr_line it)")
      case (Inl e)
      then show ?thesis using Cons.prems False by (simp add: Let_def)
    next
      case (Inr es)
      show ?thesis
      proof (cases "poll it")
        case (Some rc)
        then have "evs = es" using Cons.prems(1) False Inr by (simp add: Let_def)
        then show ?thesis using on_stderr_line_events [OF Inr, of ev] Cons.prems(2) Inr by auto
      next
        case None
        then obtain evs' where
          m: "monitor input dur (observe (stop_called it) c) its = Some (evs', c', r)" and
          evs: "evs = es @ evs'"
          using Cons.prems(1) False Inr
          by (auto simp: Let_def split: option.splits prod.splits)
        show ?thesis
        proof (cases "ev \<in> set es")
          case True
          then show ?thesis using on_stderr_line_events [OF Inr, of ev] Inr by auto
        next
          case False
          then have "ev \<in> set evs'" using Cons.prems(2) evs by simp
          from Cons.IH [OF m this Cons.prems(3)] show ?thesis by auto
        qed
      qed
    qed
  qed
qed

lemma build_cmd_duration:
  "build_cmd c j env tgt = (evs, Inr (dur, cmd)) \<Longrightarrow>
     get_video_duration env = Inr dur \<and> \<not> is_zero dur"
  by (auto simp: build_cmd_def Let_def split: sum.splits prod.splits if_splits)

lemma convert_progress:
  assumes "convert rt c j env tgt = Some (evs, c', r)" and "Progress p pct \<in> set evs"
  shows "\<exists>dur. get_video_duration env = Inr dur
           \<and> (\<exists>it \<in> set (iterations env).
                 on_stderr_line (input_path j) dur (stderr_line it) = Inr [Progress p pct])"
proof -
  obtain evs0 b where b: "build_cmd c j env tgt = (evs0, b)"
    by (cases "build_cmd c j env tgt")
  have "list_all is_run evs0"
    using build_cmd_runs [OF b] .
  then have nop: "Progress p pct \<notin> set evs0"
    by (auto simp: list_all_iff is_run_def)
  show ?thesis
  proof (cases b)
    case (Inl e)
    with assms b nop show ?thesis
      by (auto simp: convert_def convert_try_def)
  next
    case (Inr dc)
    obtain dur cmd where dc: "dc = (dur, cmd)"
      by (cases dc)
    have d: "get_video_duration env = Inr dur"
      using build_cmd_duration b Inr dc by blast
    obtain evs' c1 r1 where
      m: "monitor (input_path j) dur c (iterations env) = Some (evs', c1, r1)" and
      p: "Progress p pct \<in> set evs'"
      using assms b nop Inr dc
      by (auto simp: convert_def convert_try_def exit_check_def Let_def
               split: option.splits sum.splits prod.splits if_splits)
    from monitor_progress [OF m p] d show ?thesis by simp
  qed
qed

text \<open>
  Claim C7, as the code has it. For a duration \<open>d > 0\<close>: a line whose parsed time is
  \<open>e > 0\<close> makes the loop emit one progress signal with the percentage
  \<open>min(100, floor(v))\<close>, where \<open>v\<close> is the quotient \<open>e / d\<close> rounded to binary64, times
  100, rounded again; when one of the two overflows, \<^verbatim>\<open>int\<close> raises. Every progress
  signal that \<^verbatim>\<open>convert\<close> emits is of this kind: it names the job's input, comes from a
  line of the encoder, and its percentage lies between 0 and 100.
\<close>

theorem progress_signal_percent:
  assumes "0 < d"
  shows "(parse_time line = Fin e \<and> 0 < e \<longrightarrow>
            on_stderr_line input (Fin d) line =
              (case round64 (e / d) of
                 Fin q \<Rightarrow>
                   (case round64 (q * 100) of
                      Fin v \<Rightarrow> Inr [Progress input (min 100 \<lfloor>v\<rfloor>)]
                    | _ \<Rightarrow> Inl OverflowError_int_inf)
               | _ \<Rightarrow> Inl OverflowError_int_inf))
       \<and> (convert rt c j env tgt = Some (evs, c', r) \<and> get_video_duration env = Inr (Fin d)
            \<and> Progress p pct \<in> set evs \<longrightarrow>
            p = input_path j \<and> 0 \<le> pct \<and> pct \<le> 100
            \<and> (\<exists>it \<in> set (iterations env). \<exists>e q v.
                  parse_time (stderr_line it) = Fin e \<and> 0 < e \<and> round64 (e / d) = Fin q
                  \<and> round64 (q * 100) = Fin v \<and> pct = min 100 \<lfloor>v\<rfloor>))"
proof (rule conjI; rule impI)
  assume a: "parse_time line = Fin e \<and> 0 < e"
  then have "is_positive (parse_time line)" by simp
  from positive_time_has_marker [OF this] a progress_percent_fin [of e d] assms
  show "on_stderr_line input (Fin d) line =
              (case round64 (e / d) of
                 Fin q \<Rightarrow>
                   (case round64 (q * 100) of
                      Fin v \<Rightarrow> Inr [Progress input (min 100 \<lfloor>v\<rfloor>)]
                    | _ \<Rightarrow> Inl OverflowError_int_inf)
               | _ \<Rightarrow> Inl OverflowError_int_inf)"
    by (simp add: on_stderr_line_def split: pyfloat.splits)
next
  assume a: "convert rt c j env tgt = Some (evs, c', r) \<and> get_video_duration env = Inr (Fin d)
            \<and> Progress p pct \<in> set evs"
  from convert_progress [of rt c j env tgt evs c' r p pct] a obtain it where
    it: "it \<in> set (iterations env)" and
    l: "on_stderr_line (input_path j) (Fin d) (stderr_line it) = Inr [Progress p pct]"
    by auto
  from on_stderr_line_events [OF l, of "Progress p pct"] have
    pos: "is_positive (parse_time (stderr_line it))" and
    pp: "progress_percent (parse_time (stderr_line it)) (Fin d) = Inr pct" and
    p: "p = input_path j"
    by auto
  from progress_percent_value [OF pp pos assms] obtain e q v where
    v: "parse_time (stderr_line it) = Fin e" "0 < e" "round64 (e / d) = Fin q"
       "round64 (q * 100) = Fin v" "0 \<le> v" "pct = min 100 \<lfloor>v\<rfloor>"
    by blast
  have "0 \<le> pct \<and> pct \<le> 100" using v(5,6) by simp
  then show "p = input_path j \<and> 0 \<le> pct \<and> pct \<le> 100
            \<and> (\<exists>it \<in> set (iterations env). \<exists>e q v.
                  parse_time (stderr_line it) = Fin e \<and> 0 < e \<and> round64 (e / d) = Fin q
                  \<and> round64 (q * 100) = Fin v \<and> pct = min 100 \<lfloor>v\<rfloor>)"
    using p it v by blast
qed

lemma parse_time_200: "parse_time ''frame=1 time=00:03:20.00 bitrate=1k'' = Fin 200"
  by (simp add: py_eval)

lemma parse_time_29: "parse_time ''frame=1 time=00:00:29.00 bitrate=1k'' = Fin 29"
  by (simp add: py_eval)

lemma parse_time_6_30:
  "parse_time ''frame=1 time=00:00:06.30 bitrate=1k'' = Fin (7093169413108531 / 2 ^ 50)"
  by (simp add: py_eval)

lemma progress_percent_29: "progress_percent (Fin 29) (Fin 100) = Inr 28"
  by (simp add: progress_percent_def py_eval)

lemma progress_percent_200: "progress_percent (Fin 200) (Fin 90) = Inr 100"
  by (simp add: progress_percent_def py_eval)

lemma progress_percent_6_30:
  "progress_percent (Fin (7093169413108531 / 2 ^ 50)) (Fin 90) = Inr 6"
  by (simp add: progress_percent_def py_eval)

lemma round64_percent_examples:
  "round64 (45 / 90) = Fin (1 / 2)" "round64 (1 / 2 * 100) = Fin 50"
  "round64 (200 / 90) = Fin (2501999792983609 / 2 ^ 50)"
  "round64 (2501999792983609 / 2 ^ 50 * 100) = Fin (3909374676536889 / 2 ^ 44)"
  "round64 (29 / 100) = Fin (5224175567749775 / 2 ^ 54)"
  "round64 (5224175567749775 / 2 ^ 54 * 100) = Fin (8162774324609023 / 2 ^ 48)"
  by (simp_all add: f_eval)

theorem progress_signal_percent_witness:
  "(0::rat) < 90
   \<and> parse_time ''frame=1 time=00:00:45.00 bitrate=1k'' = Fin 45 \<and> (0::rat) < 45
   \<and> round64 (45 / 90) = Fin (1 / 2) \<and> round64 (1 / 2 * 100) = Fin 50
   \<and> on_stderr_line ''a.mov'' (Fin 90) ''frame=1 time=00:00:45.00 bitrate=1k''
       = Inr [Progress ''a.mov'' 50]
   \<and> parse_time ''frame=1 time=00:03:20.00 bitrate=1k'' = Fin 200 \<and> (0::rat) < 200
   \<and> round64 (200 / 90) = Fin (2501999792983609 / 2 ^ 50)
   \<and> round64 (2501999792983609 / 2 ^ 50 * 100) = Fin (3909374676536889 / 2 ^ 44)
   \<and> on_stderr_line ''a.mov'' (Fin 90) ''frame=1 time=00:03:20.00 bitrate=1k''
       = Inr [Progress ''a.mov'' 100]
   \<and> convert (\<lambda>b. []) plain (copy_job ''a'' None) ok_env None
       = Some (trace_ok ''a'', plain, Inr ())
   \<and> get_video_duration ok_env = Inr (Fin 90)
   \<and> Progress ''a.mov'' 50 \<in> set (trace_ok ''a'')"
proof -
  have d: "(0::rat) < 90" by simp
  have c: "convert (\<lambda>b. []) plain (copy_job ''a'' None) ok_env None
             = Some (trace_ok ''a'', plain, Inr ())"
    using convert_ok [of plain "\<lambda>b. []" "''a''"] by (simp add: plain_fields)
  have p: "Progress ''a.mov'' 50 \<in> set (trace_ok ''a'')"
    by (simp add: trace_ok_def)
  have "on_stderr_line ''a.mov'' (Fin 90) ''frame=1 time=00:00:45.00 bitrate=1k''
          = Inr [Progress ''a.mov'' 50]"
    using progress_signal_percent [OF d,
            where line = "''frame=1 time=00:00:45.00 bitrate=1k''" and e = 45
              and input = "''a.mov''"]
          parse_time_45 round64_percent_examples
    by (simp add: floor_rat_numeral)
  moreover have "on_stderr_line ''a.mov'' (Fin 90) ''frame=1 time=00:03:20.00 bitrate=1k''
          = Inr [Progress ''a.mov'' 100]"
    using progress_signal_percent [OF d,
            where line = "''frame=1 time=00:03:20.00 bitrate=1k''" and e = 200
              and input = "''a.mov''"]
          parse_time_200 round64_percent_examples
    by (simp add: floor_rat_numeral)
  ultimately show ?thesis
    using c p parse_time_45 parse_time_200 round64_percent_examples get_video_duration_ok
    by simp
qed

text \<open>
  Claim C7 as the specification words it fails. At 29 of 100 seconds the formula gives 29;
  the quotient 0.29 is no binary64 value, its rounded product with 100 lies below 29, and
  \<^verbatim>\<open>convert\<close> emits 28.
\<close>

lemma hundred_env_fields:
  "stop_before hundred_env = False" "ffmpeg_version hundred_env = None"
  "pass1 hundred_env = None" "getsize hundred_env = None"
  "metadata_probe hundred_env = Inr both_streams" "popen hundred_env = None"
  "stop_at_exit hundred_env = False" "stderr_rest hundred_env = []"
  by (simp_all add: hundred_env_def ok_env_def)

lemma get_video_duration_hundred: "get_video_duration hundred_env = Inr (Fin 100)"
  by (simp add: get_video_duration_def hundred_env_def py_eval)

lemma build_cmd_hundred:
  "build_cmd plain (copy_job ''a'' None) hundred_env None =
     ([Run version_cmd, Run (duration_cmd ''a.mov''), Run (metadata_cmd ''a.mov'')],
      Inr (Fin 100, [''ffmpeg'', ''-y'', ''-i'', ''a.mov'', ''-c:v'', ''copy'',
                     ''-c:a'', ''copy'', ''a.mp4'']))"
  by (simp add: build_cmd_def check_ffmpeg_def get_video_duration_hundred video_settings_def
      audio_args_def new_VideoMetadata_def fetch_metadata_both_streams hundred_env_fields
      copy_job_fields copy_audio_def truthy_def)

lemma monitor_hundred:
  "\<not> is_stopped c \<Longrightarrow>
     monitor p (Fin 100) c (iterations hundred_env) = Some ([Progress p 28], c, Inr (Some 0))"
  by (simp add: hundred_env_def observe_def on_stderr_line_def parse_time_29
      progress_percent_29)

lemma convert_hundred:
  "convert rt plain (copy_job ''a'' None) hundred_env None =
     Some ([Run version_cmd, Run (duration_cmd ''a.mov''), Run (metadata_cmd ''a.mov''),
            Popen [''ffmpeg'', ''-y'', ''-i'', ''a.mov'', ''-c:v'', ''copy'',
                   ''-c:a'', ''copy'', ''a.mp4''],
            Progress ''a.mov'' 28], plain, Inr ())"
  by (simp add: convert_def convert_try_def build_cmd_hundred monitor_hundred plain_fields
      hundred_env_fields copy_job_fields exit_check_def observe_def)

theorem progress_percent_counterexample:
  "get_video_duration hundred_env = Inr (Fin 100)
   \<and> map (\<lambda>it. parse_time (stderr_line it)) (iterations hundred_env) = [Fin 29, Fin 0]
   \<and> convert (\<lambda>b. []) plain (copy_job ''a'' None) hundred_env None =
       Some ([Run version_cmd, Run (duration_cmd ''a.mov''), Run (metadata_cmd ''a.mov''),
              Popen [''ffmpeg'', ''-y'', ''-i'', ''a.mov'', ''-c:v'', ''copy'',
                     ''-c:a'', ''copy'', ''a.mp4''],
              Progress ''a.mov'' 28], plain, Inr ())
   \<and> spec_percent 29 100 = 29"
  using get_video_duration_hundred convert_hundred [of "\<lambda>b. []"] parse_time_29
  by (simp add: hundred_env_def spec_percent_def parse_time_def parse_time_try_def
      time_token_def py_split_def)

text \<open>
  A time that is not positive (the result 0 of a failed parse among them) emits nothing.
\<close>

lemma no_progress_without_time:
  "\<not> is_positive (parse_time line) \<Longrightarrow> on_stderr_line input dur line = Inr []"
  by (simp add: on_stderr_line_def)

section \<open>Properties of the runner\<close>

lemma unset_flag: "\<not> is_stopped c \<Longrightarrow> c\<lparr>is_stopped := False\<rparr> = c"
  by (cases c) simp



text \<open>
  One turn of the loop of \<^verbatim>\<open>run\<close> with the flag unset: the events of \<^verbatim>\<open>convert\<close>, the
  signal for its outcome, then the rest of the queue.
\<close>

lemma run_loop_step:
  assumes "\<not> is_stopped c" and "\<not> stop_before (envs i)"
    and "convert rt c j (envs i) (target_size_mb c) = Some (evs, c', r)"
  shows "run_loop rt envs c i (j # js) =
           (case run_loop rt envs c' (Suc i) js of
              None \<Rightarrow> None
            | Some (evs', c3) \<Rightarrow> Some (evs @ [outcome rt j r] @ evs', c3))"
  using assms by (simp add: Let_def observe_def)

subsection \<open>Cancelling\<close>



subsection \<open>A probe that fails\<close>

lemma failed_probe_raises:
  assumes "probe_fails env"
  shows "\<exists>evs e. convert rt c j env tgt
                    = Some (evs, c, Inl (conversion_failed rt (input_path j) e))
           \<and> set evs \<subseteq> {Run version_cmd, Run (duration_cmd (input_path j))}"
  using assms
  by (auto simp: probe_fails_def convert_def convert_try_def build_cmd_def Let_def
           split: sum.splits)

text \<open>
  Claim C4. In a queue of three jobs, with no call of \<^verbatim>\<open>stop()\<close>, let the duration probe of
  the second job fail and the calls of \<^verbatim>\<open>convert\<close> for the first and the third return.
  Then the second call raises after the version check and the probe at most, and \<^verbatim>\<open>run\<close>
  returns (no exception is left to escape it: each is an error signal) with the events of
  the three jobs in queue order, the outcome signal of each job after its events, an error
  signal for the second, and the batch-finished signal once, last.
\<close>

theorem failed_probe_keeps_batch_going:
  assumes "conversion_queue c = [j1, j2, j3]" and "\<not> is_stopped c"
    and "\<not> stop_before (envs 0)" and "\<not> stop_before (envs 1)" and "\<not> stop_before (envs 2)"
    and "convert rt c j1 (envs 0) (target_size_mb c) = Some (evs1, c, r1)"
    and "probe_fails (envs 1)"
    and "convert rt c j3 (envs 2) (target_size_mb c) = Some (evs3, c, r3)"
  shows "\<exists>evs2 m.
           convert rt c j2 (envs 1) (target_size_mb c) = Some (evs2, c, Inl (Exception m))
           \<and> set evs2 \<subseteq> {Run version_cmd, Run (duration_cmd (input_path j2))}
           \<and> run rt envs False c =
                 Some (evs1 @ [outcome rt j1 r1] @ evs2 @ [Error (input_path j2) m]
                       @ evs3 @ [outcome rt j3 r3] @ [AllFinished], c)"
proof -
  from failed_probe_raises [OF assms(7), of rt c j2 "target_size_mb c"]
  obtain evs2 e where
    c2: "convert rt c j2 (envs 1) (target_size_mb c) =
           Some (evs2, c, Inl (conversion_failed rt (input_path j2) e))" and
    r2: "set evs2 \<subseteq> {Run version_cmd, Run (duration_cmd (input_path j2))}"
    by auto
  define m where "m = ''Conversion failed for '' @ input_path j2 @ '': '' @ str_exn rt e"
  have c2': "convert rt c j2 (envs 1) (target_size_mb c) = Some (evs2, c, Inl (Exception m))"
    using c2 by (simp add: m_def conversion_failed_def)
  have s3: "run_loop rt envs c 2 [j3] = Some (evs3 @ [outcome rt j3 r3], c)"
    using run_loop_step [where envs = envs and i = 2 and js = "[]", OF assms(2,5,8)] by simp
  have s2: "run_loop rt envs c 1 [j2, j3] =
              Some (evs2 @ [Error (input_path j2) m] @ evs3 @ [outcome rt j3 r3], c)"
    using run_loop_step [where envs = envs and i = 1 and js = "[j3]", OF assms(2,4) c2'] s3
    by (simp add: outcome_def numeral_2_eq_2)
  have s1: "run_loop rt envs c 0 [j1, j2, j3] =
              Some (evs1 @ [outcome rt j1 r1] @ evs2 @ [Error (input_path j2) m]
                    @ evs3 @ [outcome rt j3 r3], c)"
    using run_loop_step [where envs = envs and i = 0 and js = "[j2, j3]", OF assms(2,3,6)] s2
    by simp
  have "run rt envs False c =
          Some (evs1 @ [outcome rt j1 r1] @ evs2 @ [Error (input_path j2) m]
                @ evs3 @ [outcome rt j3 r3] @ [AllFinished], c)"
    using s1 assms(1,2) by (simp add: run_def observe_def Let_def unset_flag)
  with c2' r2 show ?thesis by blast
qed

lemma convert_no_duration:
  "convert rt c (copy_job n None) no_duration tgt =
     Some ([Run version_cmd, Run (duration_cmd (n @ ''.mov''))], c,
           Inl (Exception (''Conversion failed for '' @ n
                            @ ''.mov: Could not determine video duration'')))"
  by (simp add: convert_def convert_try_def build_cmd_def check_ffmpeg_def
      conversion_failed_def no_duration_fields get_video_duration_none copy_job_fields)

theorem failed_probe_keeps_batch_going_witness:
  "conversion_queue queue3 = [copy_job ''a'' None, copy_job ''b'' None, copy_job ''c'' None]
   \<and> \<not> is_stopped queue3 \<and> probe_fails (second_probe_fails 1)
   \<and> run (\<lambda>b. []) second_probe_fails False queue3 =
       Some (trace_ok ''a'' @ [Finished ''a.mov'']
             @ [Run version_cmd, Run (duration_cmd ''b.mov'')]
             @ [Error ''b.mov'' ''Conversion failed for b.mov: Could not determine video duration'']
             @ trace_ok ''c'' @ [Finished ''c.mov''] @ [AllFinished], queue3)"
proof -
  have q: "conversion_queue queue3
             = [copy_job ''a'' None, copy_job ''b'' None, copy_job ''c'' None]"
    and ns: "\<not> is_stopped queue3"
    by (simp_all add: queue3_fields)
  have e0: "\<not> stop_before (second_probe_fails 0)"
    and e1: "\<not> stop_before (second_probe_fails 1)"
    and e2: "\<not> stop_before (second_probe_fails 2)"
    by (simp_all add: second_probe_fails_def ok_env_fields no_duration_fields)
  have c1: "convert (\<lambda>b. []) queue3 (copy_job ''a'' None) (second_probe_fails 0)
              (target_size_mb queue3) = Some (trace_ok ''a'', queue3, Inr ())"
    using convert_ok [OF ns] by (simp add: second_probe_fails_def queue3_fields)
  have c3: "convert (\<lambda>b. []) queue3 (copy_job ''c'' None) (second_probe_fails 2)
              (target_size_mb queue3) = Some (trace_ok ''c'', queue3, Inr ())"
    using convert_ok [OF ns] by (simp add: second_probe_fails_def queue3_fields)
  have pf: "probe_fails (second_probe_fails 1)"
    by (simp add: probe_fails_def second_probe_fails_def get_video_duration_none)
  have c2: "convert (\<lambda>b. []) queue3 (copy_job ''b'' None) (second_probe_fails 1)
              (target_size_mb queue3)
              = Some ([Run version_cmd, Run (duration_cmd ''b.mov'')], queue3,
                      Inl (Exception
                        ''Conversion failed for b.mov: Could not determine video duration''))"
    by (simp add: second_probe_fails_def convert_no_duration)
  from failed_probe_keeps_batch_going
         [where envs = second_probe_fails, OF q ns e0 e1 e2 c1 pf c3]
  show ?thesis
    using c2 q ns pf by (auto simp: outcome_def copy_job_fields)
qed

subsection \<open>Two passes, resizing, no target size\<close>

lemma truthy_Cons: "truthy r \<Longrightarrow> \<exists>f rest. r = Some (f # rest)"
  by (cases r) (auto simp: truthy_def neq_Nil_conv)

lemma video_settings_unbound:
  assumes "truthy (resize_settings j)" and "size_reduction_method_selected c = two_pass"
  shows "video_settings c j env None dur =
           ([Run (cmd_pass1 (input_path j))],
            Inl (case pass1 env of Some e \<Rightarrow> e
                 | None \<Rightarrow> Builtin (UnboundLocalError ''bitrate_kbps'')))"
proof -
  from truthy_Cons [OF assms(1)] obtain f rest where "resize_settings j = Some (f # rest)"
    by auto
  then show ?thesis
    using assms(2) two_pass_not_single
    by (simp add: video_settings_def Let_def split: option.splits)
qed

lemma convert_try_unbound:
  assumes "truthy (resize_settings j)" and "size_reduction_method_selected c = two_pass"
  shows "convert_try c j env None =
           (case check_ffmpeg env of
              Inl e \<Rightarrow> Some ([Run version_cmd], c, Inl e)
            | Inr u \<Rightarrow>
                (case get_video_duration env of
                   Inl e \<Rightarrow>
                     Some ([Run version_cmd, Run (duration_cmd (input_path j))], c, Inl e)
                 | Inr dur \<Rightarrow>
                     if is_zero dur
                     then Some ([Run version_cmd, Run (duration_cmd (input_path j))], c,
                                Inl (Exception ''Could not determine video duration''))
                     else Some ([Run version_cmd, Run (duration_cmd (input_path j)),
                                 Run (cmd_pass1 (input_path j))], c,
                                Inl (case pass1 env of Some e \<Rightarrow> e
                                     | None \<Rightarrow> Builtin (UnboundLocalError ''bitrate_kbps'')))))"
  by (simp add: convert_try_def build_cmd_def Let_def video_settings_unbound [OF assms]
           split: sum.splits)

lemma check_ffmpeg_ok: "ffmpeg_version env = None \<Longrightarrow> check_ffmpeg env = Inr ()"
  by (simp add: check_ffmpeg_def)

text \<open>
  Claim C10. For a job with resize settings, with two-pass encoding selected and no target
  size, \<^verbatim>\<open>convert\<close> always raises and never starts the encoder. When the version check
  and the first pass succeed and the duration is not 0, it has run exactly the version
  check, the probe and the first pass, and the exception is that of reading
  \<^verbatim>\<open>bitrate_kbps\<close>, which this path never assigns. \<^verbatim>\<open>run\<close> emits the error signal for the
  job after these events and goes on with the rest of the queue from the same state.
\<close>

theorem two_pass_resize_without_target:
  assumes "truthy (resize_settings j)" and "size_reduction_method_selected c = two_pass"
    and "target_size_mb c = None" and "\<not> is_stopped c" and "\<not> stop_before (envs i)"
  shows "\<exists>evs m.
           convert rt c j (envs i) None = Some (evs, c, Inl (Exception m))
           \<and> (\<forall>cmd. Popen cmd \<notin> set evs)
           \<and> (ffmpeg_version (envs i) = None
                \<and> (\<exists>dur. get_video_duration (envs i) = Inr dur \<and> \<not> is_zero dur)
                \<and> pass1 (envs i) = None \<longrightarrow>
                evs = [Run version_cmd, Run (duration_cmd (input_path j)),
                       Run (cmd_pass1 (input_path j))]
                \<and> m = ''Conversion failed for '' @ input_path j @ '': ''
                        @ rt (UnboundLocalError ''bitrate_kbps''))
           \<and> run_loop rt envs c i (j # js) =
                 (case run_loop rt envs c (Suc i) js of
                    None \<Rightarrow> None
                  | Some (evs', c') \<Rightarrow> Some (evs @ [Error (input_path j) m] @ evs', c'))"
proof -
  have "\<exists>evs e. convert_try c j (envs i) None = Some (evs, c, Inl e)
          \<and> (\<forall>cmd. Popen cmd \<notin> set evs)
          \<and> (ffmpeg_version (envs i) = None
                \<and> (\<exists>dur. get_video_duration (envs i) = Inr dur \<and> \<not> is_zero dur)
                \<and> pass1 (envs i) = None \<longrightarrow>
                evs = [Run version_cmd, Run (duration_cmd (input_path j)),
                       Run (cmd_pass1 (input_path j))]
                \<and> e = Builtin (UnboundLocalError ''bitrate_kbps''))"
    unfolding convert_try_unbound [OF assms(1,2)]
    by (auto simp: check_ffmpeg_ok split: sum.splits)
  then obtain evs e where
    t: "convert_try c j (envs i) None = Some (evs, c, Inl e)" and
    np: "\<forall>cmd. Popen cmd \<notin> set evs" and
    sp: "ffmpeg_version (envs i) = None
          \<and> (\<exists>dur. get_video_duration (envs i) = Inr dur \<and> \<not> is_zero dur)
          \<and> pass1 (envs i) = None \<longrightarrow>
          evs = [Run version_cmd, Run (duration_cmd (input_path j)),
                 Run (cmd_pass1 (input_path j))]
          \<and> e = Builtin (UnboundLocalError ''bitrate_kbps'')"
    by (elim exE conjE)
  define m where "m = ''Conversion failed for '' @ input_path j @ '': '' @ str_exn rt e"
  have cv: "convert rt c j (envs i) None = Some (evs, c, Inl (Exception m))"
    using t by (simp add: convert_def conversion_failed_def m_def)
  have cv': "convert rt c j (envs i) (target_size_mb c) = Some (evs, c, Inl (Exception m))"
    using cv assms(3) by simp
  have loop: "run_loop rt envs c i (j # js) =
                (case run_loop rt envs c (Suc i) js of
                   None \<Rightarrow> None
                 | Some (evs', c') \<Rightarrow> Some (evs @ [Error (input_path j) m] @ evs', c'))"
    using run_loop_step [where envs = envs and i = i and js = js, OF assms(4,5) cv']
    unfolding outcome_def sum.case str_exn.simps .
  have msg: "ffmpeg_version (envs i) = None
          \<and> (\<exists>dur. get_video_duration (envs i) = Inr dur \<and> \<not> is_zero dur)
          \<and> pass1 (envs i) = None \<longrightarrow>
          evs = [Run version_cmd, Run (duration_cmd (input_path j)),
                 Run (cmd_pass1 (input_path j))]
          \<and> m = ''Conversion failed for '' @ input_path j @ '': ''
                  @ rt (UnboundLocalError ''bitrate_kbps'')"
    using sp by (simp add: m_def)
  show ?thesis
    using cv np msg loop
    by - (rule exI [of _ evs], rule exI [of _ m], intro conjI, assumption+)
qed

theorem two_pass_resize_without_target_witness:
  "truthy (resize_settings resize_job)
   \<and> size_reduction_method_selected two_pass_converter = two_pass
   \<and> target_size_mb two_pass_converter = None \<and> \<not> is_stopped two_pass_converter
   \<and> \<not> stop_before ok_env
   \<and> convert (\<lambda>b. ''unbound'') two_pass_converter resize_job ok_env None =
        Some ([Run version_cmd, Run (duration_cmd ''a.mov''), Run (cmd_pass1 ''a.mov'')],
              two_pass_converter, Inl (Exception ''Conversion failed for a.mov: unbound''))
   \<and> run_loop (\<lambda>b. ''unbound'') (\<lambda>i. ok_env) two_pass_converter 0 [resize_job] =
        Some ([Run version_cmd, Run (duration_cmd ''a.mov''), Run (cmd_pass1 ''a.mov''),
               Error ''a.mov'' ''Conversion failed for a.mov: unbound''], two_pass_converter)"
proof -
  have t: "truthy (resize_settings resize_job)"
    by (simp add: resize_job_fields truthy_def)
  have ns: "\<not> is_stopped two_pass_converter"
    and nb: "\<not> stop_before ((\<lambda>i. ok_env) (0::nat))"
    by (simp_all add: two_pass_converter_fields ok_env_fields)
  have pre: "ffmpeg_version ok_env = None
       \<and> (\<exists>dur. get_video_duration ok_env = Inr dur \<and> \<not> is_zero dur)
       \<and> pass1 ok_env = None"
    by (simp add: ok_env_fields get_video_duration_ok)
  from two_pass_resize_without_target [where envs = "\<lambda>i. ok_env" and i = 0 and js = "[]"
      and rt = "\<lambda>b. ''unbound''", OF t two_pass_converter_fields(3)
      two_pass_converter_fields(2) ns nb]
  show ?thesis
    using pre t ns by (auto simp: two_pass_converter_fields resize_job_fields ok_env_fields)
qed

end
